theory Spec2Isabelle
  imports Complex_Main "HOL-Library.Multiset" "HOL-Library.Log_Nat"
begin

section \<open>Data model of src/server.ts\<close>

text \<open>
  The server keeps two process-wide maps (\<open>games\<close>, \<open>playerConnections\<close>) and mutates the
  game objects stored in them in place. The embedding passes the whole store explicitly
  and returns it updated; every \<open>ws.send\<close> is recorded in a log, in the order of the calls.
\<close>

datatype Color = White | Black

datatype PieceType = Pawn | Rook | Knight | Bishop | Queen | King

datatype Suit = Hearts | Diamonds | Clubs | Spades

datatype CardValue = Num nat | J | Q | K | A

datatype Status = Waiting | Active | Finished

record Card =
  suit :: Suit
  cvalue :: CardValue
  revealed :: bool

text \<open>
  Coordinates are the JSON numbers of the request body. They are modelled as integers;
  nothing in the handlers restricts them to \<open>0..7\<close>.
\<close>

record Pos =
  px :: int
  py :: int

record ChessPiece =
  ptype :: PieceType
  color :: Color
  position :: Pos
  card :: "Card option"

text \<open>
  \<open>board\<close> is a JavaScript array of eight row arrays. The outer array is only ever read
  (\<open>board[y]\<close>); for \<open>y\<close> outside it the read gives \<open>undefined\<close>, and the property access
  \<open>undefined[x]\<close> that follows throws a TypeError. A row is read with \<open>row[x]\<close> and written
  with \<open>row[x] = v\<close> for any number \<open>x\<close>: JavaScript answers \<open>undefined\<close> for a property
  that is absent and creates the property on a write, whatever the index. A row is
  therefore a map from integer keys to pieces, where \<open>None\<close> stands for \<open>null\<close>, for
  \<open>undefined\<close> and for a hole alike: the handlers only test a cell for truthiness.
\<close>

type_synonym Row = "int \<Rightarrow> ChessPiece option"

type_synonym Board = "Row list"

text \<open>
  \<open>players\<close> is an object whose keys are created by the join handler; \<open>Object.entries\<close>
  lists them in the order of creation. It is an association list in that order.
\<close>

record GameState =
  gid :: string
  players :: "(Color \<times> string) list"
  board :: Board
  communityCards :: "Card list"
  currentTurn :: Color
  deck :: "Card list"
  status :: Status

datatype UpdateType = MOVE | CARD_PLAY | GAME_END | PLAYER_JOINED | PLAYER_DISCONNECTED

datatype UpdateData =
    MoveData Pos Pos ChessPiece
  | CardPlayData Pos Card
  | PlayerData string

record GameUpdate =
  utype :: UpdateType
  gameId :: string
  udata :: UpdateData

text \<open>What a connection is sent: a game update, or \<open>{type: 'ERROR', message}\<close>.\<close>

datatype Outgoing = Update GameUpdate | ErrorMsg string

text \<open>A WebSocket object is known by its identity only.\<close>

type_synonym WebSocket = nat

record Conn =
  ws :: WebSocket
  conn_gameId :: string

record Server =
  games :: "string \<rightharpoonup> GameState"
  playerConnections :: "(string \<times> Conn) list"
  sent :: "(WebSocket \<times> Outgoing) list"

text \<open>
  The outcome of a REST handler: the JSON of the game, one of the handler's own error
  replies, or a TypeError that leaves the handler (Express answers 500).
\<close>

datatype Error =
    GameNotFound    \<comment> \<open>404 'Game not found'\<close>
  | ColorTaken      \<comment> \<open>400 'Color already taken'\<close>
  | NotYourTurn     \<comment> \<open>400 'Not your turn'\<close>
  | InvalidPiece    \<comment> \<open>400 'Invalid piece'\<close>
  | DeckEmpty       \<comment> \<open>400 'No cards left in deck'\<close>
  | TypeError       \<comment> \<open>uncaught exception\<close>

type_synonym Reply = "Error + GameState"

section \<open>Array operations used on the deck\<close>

text \<open>\<open>deck.pop()\<close>: removes and returns the last element, \<open>undefined\<close> on an empty array.\<close>

definition pop :: "'a list \<Rightarrow> 'a option \<times> 'a list" where
  "pop xs = (case xs of [] \<Rightarrow> (None, []) | _ # _ \<Rightarrow> (Some (last xs), butlast xs))"

text \<open>\<open>deck.splice(0, n)\<close>: removes and returns the first \<open>n\<close> elements, fewer if there are fewer.\<close>

definition splice0 :: "nat \<Rightarrow> 'a list \<Rightarrow> 'a list \<times> 'a list" where
  "splice0 n xs = (take n xs, drop n xs)"

definition reveal :: "Card \<Rightarrow> Card" where
  "reveal c = c\<lparr>revealed := True\<rparr>"

definition mkCard :: "Suit \<Rightarrow> CardValue \<Rightarrow> Card" where
  "mkCard s v = \<lparr>suit = s, cvalue = v, revealed = False\<rparr>"

record Move =
  mfrom :: Pos
  mto :: Pos
  mplayerId :: string

section \<open>Board access\<close>

text \<open>\<open>board[y]\<close>: the row, or \<open>undefined\<close> (\<open>None\<close>) outside the outer array.\<close>

definition getRow :: "Board \<Rightarrow> int \<Rightarrow> Row option" where
  "getRow b r = (if 0 \<le> r \<and> r < int (length b) then Some (b ! nat r) else None)"

text \<open>
  \<open>board[p.y][p.x]\<close> as a read. The outer \<open>None\<close> is the TypeError of indexing
  \<open>undefined\<close>; \<open>Some None\<close> is a falsy cell.
\<close>

definition readCell :: "Board \<Rightarrow> Pos \<Rightarrow> ChessPiece option option" where
  "readCell b p = (case getRow b (py p) of None \<Rightarrow> None | Some row \<Rightarrow> Some (row (px p)))"

text \<open>The assignment \<open>board[r][c] = v\<close> for a row \<open>r\<close> that exists.\<close>

definition setRowCell :: "Board \<Rightarrow> nat \<Rightarrow> int \<Rightarrow> ChessPiece option \<Rightarrow> Board" where
  "setRowCell b r c v = b[r := (b ! r)(c := v)]"

text \<open>\<open>board[p.y][p.x] = v\<close>: \<open>None\<close> is the TypeError of assigning into \<open>undefined\<close>.\<close>

definition writeCell :: "Board \<Rightarrow> Pos \<Rightarrow> ChessPiece option \<Rightarrow> Board option" where
  "writeCell b p v =
     (case getRow b (py p) of
        None \<Rightarrow> None
      | Some row \<Rightarrow> Some (setRowCell b (nat (py p)) (px p) v))"

section \<open>createInitialBoard\<close>

definition pieceOrder :: "PieceType list" where
  "pieceOrder = [Rook, Knight, Bishop, Queen, King, Bishop, Knight, Rook]"

definition mkPiece :: "PieceType \<Rightarrow> Color \<Rightarrow> int \<Rightarrow> int \<Rightarrow> ChessPiece" where
  "mkPiece t c xx yy = \<lparr>ptype = t, color = c, position = \<lparr>px = xx, py = yy\<rparr>, card = None\<rparr>"

text \<open>The body of the loop \<open>for (let x = 0; x < 8; x++)\<close>, its four assignments in order.\<close>

definition placeColumn :: "nat \<Rightarrow> Board \<Rightarrow> Board" where
  "placeColumn n b =
     (let b0 = setRowCell b 0 (int n) (Some (mkPiece (pieceOrder ! n) Black (int n) 0));
          b1 = setRowCell b0 1 (int n) (Some (mkPiece Pawn Black (int n) 1));
          b6 = setRowCell b1 6 (int n) (Some (mkPiece Pawn White (int n) 6));
          b7 = setRowCell b6 7 (int n) (Some (mkPiece (pieceOrder ! n) White (int n) 7))
      in b7)"

text \<open>\<open>Array(8).fill(null).map(() => Array(8).fill(null))\<close>: eight rows without a piece.\<close>

definition emptyBoard :: Board where
  "emptyBoard = replicate 8 (\<lambda>_. None)"

definition createInitialBoard :: Board where
  "createInitialBoard = fold placeColumn [0..<8] emptyBoard"

section \<open>createDeck and shuffleDeck\<close>

definition suits :: "Suit list" where
  "suits = [Hearts, Diamonds, Clubs, Spades]"

definition cardValues :: "CardValue list" where
  "cardValues = [Num 2, Num 3, Num 4, Num 5, Num 6, Num 7, Num 8, Num 9, Num 10, J, Q, K, A]"

definition orderedDeck :: "Card list" where
  "orderedDeck = concat (map (\<lambda>s. map (\<lambda>v. mkCard s v) cardValues) suits)"

text \<open>
  Numbers are IEEE 754 doubles. A double is a rational, and the product of two doubles is
  the exact product rounded to the nearest double, ties to the even significand.
  \<open>roundTiesToEven\<close> rounds to an integer in that way; \<open>log2floor q\<close> is the exponent
  \<open>e\<close> with \<open>2^e \<le> q < 2^(e+1)\<close> for a positive \<open>q\<close>, from the bit lengths of numerator
  and denominator; \<open>roundDouble\<close> rounds to 53 significant bits, with the fixed spacing
  \<open>2^(-1074)\<close> below \<open>2^(-1022)\<close>. Overflow to infinity (from \<open>2^1024\<close> on) is not
  modelled: the products below are less than the length of an array.
\<close>

definition roundTiesToEven :: "rat \<Rightarrow> int" where
  "roundTiesToEven q =
     (let f = \<lfloor>q\<rfloor>; d = q - of_int f
      in if d < 1 / 2 then f else if 1 / 2 < d then f + 1 else if even f then f else f + 1)"

definition log2floor :: "rat \<Rightarrow> int" where
  "log2floor q =
     (case quotient_of q of
        (a, b) \<Rightarrow> let d = bitlen a - bitlen b in if 2 powi d \<le> q then d else d - 1)"

definition roundDouble :: "rat \<Rightarrow> rat" where
  "roundDouble q =
     (if q = 0 then 0
      else
        let e = max (log2floor \<bar>q\<bar>) (- 1022);
            m = roundTiesToEven (\<bar>q\<bar> * 2 powi (52 - e))
        in sgn q * of_int m * 2 powi (e - 52))"

text \<open>
  \<open>Math.floor(Math.random() * (i + 1))\<close>, for the double \<open>r\<close> that \<open>Math.random()\<close>
  returned: the product is rounded to a double before the floor is taken.
\<close>

definition randomIndex :: "rat \<Rightarrow> nat \<Rightarrow> nat" where
  "randomIndex r i = nat \<lfloor>roundDouble (r * of_nat (i + 1))\<rfloor>"

text \<open>\<open>[a[i], a[j]] = [a[j], a[i]]\<close>: both reads come before both writes.\<close>

definition swap :: "nat \<Rightarrow> nat \<Rightarrow> 'a list \<Rightarrow> 'a list" where
  "swap i j xs = xs[i := xs ! j, j := xs ! i]"

text \<open>
  The loop \<open>for (let i = n - 1; i > 0; i--)\<close>. The random source is a parameter:
  \<open>rnd i\<close> is what \<open>Math.random()\<close> returns in the iteration with index \<open>i\<close>.
\<close>

fun shuffleLoop :: "(nat \<Rightarrow> rat) \<Rightarrow> nat \<Rightarrow> 'a list \<Rightarrow> 'a list" where
  "shuffleLoop rnd 0 xs = xs"
| "shuffleLoop rnd (Suc i) xs =
     shuffleLoop rnd i (swap (Suc i) (randomIndex (rnd (Suc i)) (Suc i)) xs)"

definition shuffleDeck :: "(nat \<Rightarrow> rat) \<Rightarrow> 'a list \<Rightarrow> 'a list" where
  "shuffleDeck rnd d = shuffleLoop rnd (length d - 1) d"

definition createDeck :: "(nat \<Rightarrow> rat) \<Rightarrow> Card list" where
  "createDeck rnd = shuffleDeck rnd orderedDeck"

section \<open>Players and connections\<close>

text \<open>\<open>game.players[color]\<close>.\<close>

definition getPlayer :: "(Color \<times> string) list \<Rightarrow> Color \<Rightarrow> string option" where
  "getPlayer ps c = map_of ps c"

text \<open>
  \<open>game.players[color] = playerId\<close>: an existing key keeps its place, a new key goes last.
\<close>

fun setProp :: "('k \<times> 'v) list \<Rightarrow> 'k \<Rightarrow> 'v \<Rightarrow> ('k \<times> 'v) list" where
  "setProp [] k v = [(k, v)]"
| "setProp ((k', v') # kvs) k v =
     (if k' = k then (k, v) # kvs else (k', v') # setProp kvs k v)"

text \<open>Truthiness of a player slot: absent and the empty string are falsy.\<close>

definition truthy :: "string option \<Rightarrow> bool" where
  "truthy v = (case v of None \<Rightarrow> False | Some [] \<Rightarrow> False | Some (_ # _) \<Rightarrow> True)"

text \<open>
  \<open>Object.entries(game.players).find(([color, id]) => id === playerId)?.[0]\<close>:
  the color of the first entry whose id is the player's.
\<close>

definition playerColorOf :: "(Color \<times> string) list \<Rightarrow> string \<Rightarrow> Color option" where
  "playerColorOf ps pid = map_option fst (find (\<lambda>e. snd e = pid) ps)"

text \<open>\<open>playerConnections.delete(playerId)\<close>.\<close>

fun deleteKey :: "('k \<times> 'v) list \<Rightarrow> 'k \<Rightarrow> ('k \<times> 'v) list" where
  "deleteKey [] k = []"
| "deleteKey ((k', v') # kvs) k = (if k' = k then kvs else (k', v') # deleteKey kvs k)"

definition send :: "Server \<Rightarrow> WebSocket \<Rightarrow> Outgoing \<Rightarrow> Server" where
  "send s w m = s\<lparr>sent := sent s @ [(w, m)]\<rparr>"

text \<open>
  \<open>broadcastGameUpdate\<close>: one \<open>send\<close> for each entry of \<open>playerConnections\<close> whose
  \<open>gameId\<close> is the update's, in the order of the entries.
\<close>

definition recipients :: "(string \<times> Conn) list \<Rightarrow> string \<Rightarrow> WebSocket list" where
  "recipients cs g = map (\<lambda>e. ws (snd e)) (filter (\<lambda>e. conn_gameId (snd e) = g) cs)"

definition broadcastGameUpdate :: "Server \<Rightarrow> GameUpdate \<Rightarrow> Server" where
  "broadcastGameUpdate s u =
     s\<lparr>sent := sent s @ map (\<lambda>w. (w, Update u)) (recipients (playerConnections s) (gameId u))\<rparr>"

section \<open>REST handlers\<close>

text \<open>
  \<open>POST /api/games\<close>. The identifier comes from \<open>uuidv4()\<close> and the shuffle from
  \<open>Math.random()\<close>; both are parameters.
\<close>

definition newGame :: "string \<Rightarrow> (nat \<Rightarrow> rat) \<Rightarrow> GameState" where
  "newGame g rnd =
     \<lparr>gid = g, players = [], board = createInitialBoard, communityCards = [],
      currentTurn = White, deck = createDeck rnd, status = Waiting\<rparr>"

definition createGame :: "Server \<Rightarrow> string \<Rightarrow> (nat \<Rightarrow> rat) \<Rightarrow> Server \<times> string \<times> GameState" where
  "createGame s g rnd = (s\<lparr>games := (games s)(g \<mapsto> newGame g rnd)\<rparr>, g, newGame g rnd)"

text \<open>\<open>POST /api/games/:gameId/join\<close> with body \<open>{playerId, color}\<close>.\<close>

definition dealCommunity :: "GameState \<Rightarrow> GameState" where
  "dealCommunity game =
     (case splice0 3 (deck game) of
        (dealt, rest) \<Rightarrow> game\<lparr>status := Active, deck := rest, communityCards := map reveal dealt\<rparr>)"

definition restJoin :: "Server \<Rightarrow> string \<Rightarrow> string \<Rightarrow> Color \<Rightarrow> Server \<times> Reply" where
  "restJoin s g playerId c =
     (case games s g of
        None \<Rightarrow> (s, Inl GameNotFound)
      | Some game \<Rightarrow>
          if truthy (getPlayer (players game) c) then (s, Inl ColorTaken)
          else
            let game1 = game\<lparr>players := setProp (players game) c playerId\<rparr>;
                game2 = (if truthy (getPlayer (players game1) White)
                            \<and> truthy (getPlayer (players game1) Black)
                         then dealCommunity game1 else game1)
            in (s\<lparr>games := (games s)(g \<mapsto> game2)\<rparr>, Inr game2))"

text \<open>\<open>game.currentTurn === 'white' ? 'black' : 'white'\<close>.\<close>

definition otherColor :: "Color \<Rightarrow> Color" where
  "otherColor c = (if c = White then Black else White)"

text \<open>\<open>{...piece, position: {x: to.x, y: to.y}}\<close>.\<close>

definition movedTo :: "ChessPiece \<Rightarrow> Pos \<Rightarrow> ChessPiece" where
  "movedTo piece p = piece\<lparr>position := \<lparr>px = px p, py = py p\<rparr>\<rparr>"

text \<open>
  \<open>POST /api/games/:gameId/move\<close> with body \<open>{from, to, playerId}\<close>. The two
  assignments to the board come in the order of the source; each can throw for itself.
\<close>

definition restMove :: "Server \<Rightarrow> string \<Rightarrow> Move \<Rightarrow> Server \<times> Reply" where
  "restMove s g mv =
     (case games s g of
        None \<Rightarrow> (s, Inl GameNotFound)
      | Some game \<Rightarrow>
          (case playerColorOf (players game) (mplayerId mv) of
             None \<Rightarrow> (s, Inl NotYourTurn)
           | Some playerColor \<Rightarrow>
               if playerColor = currentTurn game then
                 (case readCell (board game) (mfrom mv) of
                    None \<Rightarrow> (s, Inl TypeError)
                  | Some None \<Rightarrow> (s, Inl InvalidPiece)
                  | Some (Some piece) \<Rightarrow>
                      if color piece = playerColor then
                        (case writeCell (board game) (mto mv) (Some (movedTo piece (mto mv))) of
                           None \<Rightarrow> (s, Inl TypeError)
                         | Some b1 \<Rightarrow>
                             (case writeCell b1 (mfrom mv) None of
                                None \<Rightarrow> (s\<lparr>games := (games s)(g \<mapsto> game\<lparr>board := b1\<rparr>)\<rparr>, Inl TypeError)
                              | Some b2 \<Rightarrow>
                                  let game1 = game\<lparr>board := b2,
                                                currentTurn := otherColor (currentTurn game)\<rparr>;
                                      s1 = s\<lparr>games := (games s)(g \<mapsto> game1)\<rparr>;
                                      s2 = broadcastGameUpdate s1
                                             \<lparr>utype = MOVE, gameId = gid game1,
                                              udata = MoveData (mfrom mv) (mto mv) piece\<rparr>
                                  in (s2, Inr game1)))
                      else (s, Inl InvalidPiece))
               else (s, Inl NotYourTurn)))"

text \<open>\<open>piece.card = {...card, revealed: true}\<close> on the piece object held by the cell.\<close>

definition attachCard :: "Board \<Rightarrow> Pos \<Rightarrow> ChessPiece \<Rightarrow> Card \<Rightarrow> Board" where
  "attachCard b p piece c = setRowCell b (nat (py p)) (px p) (Some (piece\<lparr>card := Some (reveal c)\<rparr>))"

text \<open>
  \<open>POST /api/games/:gameId/play-card\<close> with body \<open>{playerId, piecePosition}\<close>. The card is
  popped before the board is indexed, so a TypeError leaves the deck one card shorter.
\<close>

definition restPlayCard :: "Server \<Rightarrow> string \<Rightarrow> string \<Rightarrow> Pos \<Rightarrow> Server \<times> Reply" where
  "restPlayCard s g playerId piecePosition =
     (case games s g of
        None \<Rightarrow> (s, Inl GameNotFound)
      | Some game \<Rightarrow>
          (case pop (deck game) of
             (None, _) \<Rightarrow> (s, Inl DeckEmpty)
           | (Some c, rest) \<Rightarrow>
               let game1 = game\<lparr>deck := rest\<rparr> in
               (case readCell (board game1) piecePosition of
                  None \<Rightarrow> (s\<lparr>games := (games s)(g \<mapsto> game1)\<rparr>, Inl TypeError)
                | Some cell \<Rightarrow>
                    let game2 = (case cell of
                                   None \<Rightarrow> game1
                                 | Some piece \<Rightarrow>
                                     game1\<lparr>board := attachCard (board game1) piecePosition piece c\<rparr>);
                        s1 = s\<lparr>games := (games s)(g \<mapsto> game2)\<rparr>;
                        s2 = broadcastGameUpdate s1
                               \<lparr>utype = CARD_PLAY, gameId = gid game2,
                                udata = CardPlayData piecePosition c\<rparr>
                    in (s2, Inr game2))))"

section \<open>WebSocket handlers\<close>

datatype Message =
    JOIN_GAME string string         \<comment> \<open>gameId, playerId\<close>
  | MOVE_REQUEST string Move        \<comment> \<open>gameId, move\<close>
  | CARD_PLAY_REQUEST string Pos    \<comment> \<open>gameId, piecePosition\<close>
  | UnknownType                     \<comment> \<open>a type the switch has no case for\<close>
  | Unparsable                      \<comment> \<open>\<open>JSON.parse\<close> throws\<close>

text \<open>\<open>isValidMove\<close>; \<open>None\<close> when indexing the board throws.\<close>

definition isValidMove :: "GameState \<Rightarrow> Move \<Rightarrow> bool option" where
  "isValidMove game mv =
     (case readCell (board game) (mfrom mv) of
        None \<Rightarrow> None
      | Some None \<Rightarrow> Some False
      | Some (Some piece) \<Rightarrow>
          if px (mto mv) < 0 \<or> px (mto mv) > 7 \<or> py (mto mv) < 0 \<or> py (mto mv) > 7
          then Some False
          else
            (case readCell (board game) (mto mv) of
               None \<Rightarrow> None
             | Some None \<Rightarrow> Some True
             | Some (Some destPiece) \<Rightarrow>
                 if color destPiece = color piece then Some False else Some True))"

text \<open>
  The cases of the switch. \<open>Inr\<close> is a normal end of the \<open>try\<close> block, \<open>Inl\<close> a throw,
  each with the store as it is at that moment.
\<close>

definition wsJoinGame :: "Server \<Rightarrow> WebSocket \<Rightarrow> string \<Rightarrow> string \<Rightarrow> Server" where
  "wsJoinGame s w g playerId =
     broadcastGameUpdate
       (s\<lparr>playerConnections :=
            setProp (playerConnections s) playerId \<lparr>ws = w, conn_gameId = g\<rparr>\<rparr>)
       \<lparr>utype = PLAYER_JOINED, gameId = g, udata = PlayerData playerId\<rparr>"

definition wsMoveRequest :: "Server \<Rightarrow> WebSocket \<Rightarrow> string \<Rightarrow> Move \<Rightarrow> Server + Server" where
  "wsMoveRequest s w g mv =
     (case games s g of
        None \<Rightarrow> Inr s
      | Some game \<Rightarrow>
          (case isValidMove game mv of
             None \<Rightarrow> Inl s
           | Some False \<Rightarrow> Inr s
           | Some True \<Rightarrow>
               (case readCell (board game) (mfrom mv) of
                  None \<Rightarrow> Inl s
                | Some None \<Rightarrow> Inr (send s w (ErrorMsg ''No piece at source position''))
                | Some (Some piece) \<Rightarrow>
                    (case writeCell (board game) (mto mv) (Some (movedTo piece (mto mv))) of
                       None \<Rightarrow> Inl s
                     | Some b1 \<Rightarrow>
                         (case writeCell b1 (mfrom mv) None of
                            None \<Rightarrow> Inl (s\<lparr>games := (games s)(g \<mapsto> game\<lparr>board := b1\<rparr>)\<rparr>)
                          | Some b2 \<Rightarrow>
                              Inr (broadcastGameUpdate
                                     (s\<lparr>games := (games s)(g \<mapsto> game\<lparr>board := b2\<rparr>)\<rparr>)
                                     \<lparr>utype = MOVE, gameId = g,
                                      udata = MoveData (mfrom mv) (mto mv) piece\<rparr>))))))"

definition wsCardPlayRequest :: "Server \<Rightarrow> WebSocket \<Rightarrow> string \<Rightarrow> Pos \<Rightarrow> Server + Server" where
  "wsCardPlayRequest s w g piecePosition =
     (case games s g of
        None \<Rightarrow> Inr s
      | Some game \<Rightarrow>
          (case pop (deck game) of
             (None, _) \<Rightarrow> Inr s
           | (Some c, rest) \<Rightarrow>
               let game1 = game\<lparr>deck := rest\<rparr>;
                   s1 = s\<lparr>games := (games s)(g \<mapsto> game1)\<rparr>
               in
               (case readCell (board game1) piecePosition of
                  None \<Rightarrow> Inl s1
                | Some None \<Rightarrow> Inr s1
                | Some (Some piece) \<Rightarrow>
                    Inr (broadcastGameUpdate
                           (s\<lparr>games := (games s)(g \<mapsto>
                                game1\<lparr>board := attachCard (board game1) piecePosition piece c\<rparr>)\<rparr>)
                           \<lparr>utype = CARD_PLAY, gameId = g,
                            udata = CardPlayData piecePosition c\<rparr>))))"

text \<open>
  \<open>ws.on('message')\<close> for the connection \<open>w\<close>: the switch inside \<open>try\<close>, and the
  \<open>catch\<close> that answers the sender.
\<close>

definition wsDispatch :: "Server \<Rightarrow> WebSocket \<Rightarrow> Message \<Rightarrow> Server + Server" where
  "wsDispatch s w m =
     (case m of
        JOIN_GAME g playerId \<Rightarrow> Inr (wsJoinGame s w g playerId)
      | MOVE_REQUEST g mv \<Rightarrow> wsMoveRequest s w g mv
      | CARD_PLAY_REQUEST g piecePosition \<Rightarrow> wsCardPlayRequest s w g piecePosition
      | UnknownType \<Rightarrow> Inr s
      | Unparsable \<Rightarrow> Inl s)"

definition wsMessage :: "Server \<Rightarrow> WebSocket \<Rightarrow> Message \<Rightarrow> Server" where
  "wsMessage s w m =
     (case wsDispatch s w m of
        Inr s1 \<Rightarrow> s1
      | Inl s1 \<Rightarrow> send s1 w (ErrorMsg ''Invalid message format''))"

text \<open>
  \<open>ws.on('close')\<close> for the connection \<open>w\<close>: the first entry whose socket is \<open>w\<close> is
  deleted and the rest of its game is told; then the loop breaks.
\<close>

definition wsClose :: "Server \<Rightarrow> WebSocket \<Rightarrow> Server" where
  "wsClose s w =
     (case find (\<lambda>e. ws (snd e) = w) (playerConnections s) of
        None \<Rightarrow> s
      | Some (playerId, conn) \<Rightarrow>
          broadcastGameUpdate
            (s\<lparr>playerConnections := deleteKey (playerConnections s) playerId\<rparr>)
            \<lparr>utype = PLAYER_DISCONNECTED, gameId = conn_gameId conn,
             udata = PlayerData playerId\<rparr>)"

definition emptyServer :: Server where
  "emptyServer = \<lparr>games = Map.empty, playerConnections = [], sent = []\<rparr>"

section \<open>Observations and the standard layout\<close>

text \<open>
  The starting layout as the specification describes it: rows 0 and 7 hold rook, knight,
  bishop, queen, king, bishop, knight, rook by column; row 1 holds the black pawns and
  row 6 the white pawns; every other cell is empty. It is written out without any of the
  helpers of \<open>createInitialBoard\<close>, which is compared with it.
\<close>

definition backRank :: "int \<Rightarrow> PieceType" where
  "backRank c =
     (if c = 0 \<or> c = 7 then Rook
      else if c = 1 \<or> c = 6 then Knight
      else if c = 2 \<or> c = 5 then Bishop
      else if c = 3 then Queen
      else King)"

definition standardLayout :: "int \<Rightarrow> int \<Rightarrow> ChessPiece option" where
  "standardLayout c r =
     (if 0 \<le> c \<and> c \<le> 7 then
        (if r = 0 then
           Some \<lparr>ptype = backRank c, color = Black, position = \<lparr>px = c, py = 0\<rparr>, card = None\<rparr>
         else if r = 1 then
           Some \<lparr>ptype = Pawn, color = Black, position = \<lparr>px = c, py = 1\<rparr>, card = None\<rparr>
         else if r = 6 then
           Some \<lparr>ptype = Pawn, color = White, position = \<lparr>px = c, py = 6\<rparr>, card = None\<rparr>
         else if r = 7 then
           Some \<lparr>ptype = backRank c, color = White, position = \<lparr>px = c, py = 7\<rparr>, card = None\<rparr>
         else None)
      else None)"

text \<open>The pieces held by the columns 0 to 7 of every row, row by row.\<close>

definition boardPieces :: "Board \<Rightarrow> ChessPiece list" where
  "boardPieces b = concat (map (\<lambda>row. List.map_filter row [0..7]) b)"


text \<open>What a client sees of one game of the store.\<close>

definition turnOf :: "Server \<Rightarrow> string \<Rightarrow> Color option" where
  "turnOf s g = map_option currentTurn (games s g)"

definition statusOf :: "Server \<Rightarrow> string \<Rightarrow> Status option" where
  "statusOf s g = map_option status (games s g)"

definition deckOf :: "Server \<Rightarrow> string \<Rightarrow> Card list option" where
  "deckOf s g = map_option deck (games s g)"

definition communityOf :: "Server \<Rightarrow> string \<Rightarrow> Card list option" where
  "communityOf s g = map_option communityCards (games s g)"

definition playersOf :: "Server \<Rightarrow> string \<Rightarrow> (Color \<times> string) list option" where
  "playersOf s g = map_option players (games s g)"

definition cellOf :: "Server \<Rightarrow> string \<Rightarrow> Pos \<Rightarrow> ChessPiece option option option" where
  "cellOf s g p = map_option (\<lambda>game. readCell (board game) p) (games s g)"

section \<open>A concrete run\<close>

text \<open>
  One game is created with a random source that always returns 0, the two players join
  over REST and then register their connections 1 and 2 over the push channel.
\<close>

definition pos :: "int \<Rightarrow> int \<Rightarrow> Pos" where
  "pos c r = \<lparr>px = c, py = r\<rparr>"

definition mkMove :: "Pos \<Rightarrow> Pos \<Rightarrow> string \<Rightarrow> Move" where
  "mkMove a b p = \<lparr>mfrom = a, mto = b, mplayerId = p\<rparr>"

definition demoRnd :: "nat \<Rightarrow> rat" where
  "demoRnd k = 0"

definition createdServer :: Server where
  "createdServer = fst (createGame emptyServer ''g'' demoRnd)"

definition whiteJoined :: Server where
  "whiteJoined = fst (restJoin createdServer ''g'' ''p1'' White)"

definition activeServer :: Server where
  "activeServer = fst (restJoin whiteJoined ''g'' ''p2'' Black)"

definition connectedServer :: Server where
  "connectedServer =
     wsMessage (wsMessage activeServer 1 (JOIN_GAME ''g'' ''p1'')) 2 (JOIN_GAME ''g'' ''p2'')"

definition activeGame :: GameState where
  "activeGame =
     \<lparr>gid = ''g'', players = [(White, ''p1''), (Black, ''p2'')], board = createInitialBoard,
      communityCards = map reveal (take 3 (createDeck demoRnd)), currentTurn = White,
      deck = drop 3 (createDeck demoRnd), status = Active\<rparr>"

definition joinedUpdate :: "string \<Rightarrow> Outgoing" where
  "joinedUpdate p = Update \<lparr>utype = PLAYER_JOINED, gameId = ''g'', udata = PlayerData p\<rparr>"

definition moveUpdate :: "Pos \<Rightarrow> Pos \<Rightarrow> ChessPiece \<Rightarrow> Outgoing" where
  "moveUpdate a b piece = Update \<lparr>utype = MOVE, gameId = ''g'', udata = MoveData a b piece\<rparr>"

definition cardUpdate :: "Pos \<Rightarrow> Card \<Rightarrow> Outgoing" where
  "cardUpdate p c = Update \<lparr>utype = CARD_PLAY, gameId = ''g'', udata = CardPlayData p c\<rparr>"

text \<open>
  Play-card carries no check of the status or of the turn, so the deck can be drawn down
  before or after the joins: \<open>drawTimes n\<close> is \<open>n\<close> REST play-card requests on the empty
  cell (4, 4).
\<close>

definition drawTimes :: "nat \<Rightarrow> Server \<Rightarrow> Server" where
  "drawTimes n s = ((\<lambda>s1. fst (restPlayCard s1 ''g'' ''p1'' (pos 4 4))) ^^ n) s"

definition shortServer :: Server where
  "shortServer = drawTimes 50 whiteJoined"

definition drainedServer :: Server where
  "drainedServer = drawTimes 49 connectedServer"

definition colorOf :: "Server \<Rightarrow> string \<Rightarrow> string \<Rightarrow> Color option option" where
  "colorOf s g p = map_option (\<lambda>game. playerColorOf (players game) p) (games s g)"

text \<open>Three REST play-card requests on the pawns at (4, 6), (3, 6) and (2, 6), in this order.\<close>

definition threeDraws :: "Server \<Rightarrow> Server" where
  "threeDraws s =
     fst (restPlayCard
            (fst (restPlayCard
                    (fst (restPlayCard s ''g'' ''p1'' \<lparr>px = 4, py = 6\<rparr>))
                    ''g'' ''p1'' \<lparr>px = 3, py = 6\<rparr>))
            ''g'' ''p1'' \<lparr>px = 2, py = 6\<rparr>)"

section \<open>Reachable stores\<close>

text \<open>
  The stores the server can be in: it starts empty, and every request, message and
  disconnect is a step. Nothing is assumed of the arguments of a step.
\<close>

inductive reachable :: "Server \<Rightarrow> bool" where
  start: "reachable emptyServer"
| create: "reachable s \<Longrightarrow> reachable (fst (createGame s g rnd))"
| join: "reachable s \<Longrightarrow> reachable (fst (restJoin s g p c))"
| move: "reachable s \<Longrightarrow> reachable (fst (restMove s g mv))"
| playCard: "reachable s \<Longrightarrow> reachable (fst (restPlayCard s g p q))"
| message: "reachable s \<Longrightarrow> reachable (wsMessage s w m)"
| close: "reachable s \<Longrightarrow> reachable (wsClose s w)"

text \<open>\<open>game.players.white && game.players.black\<close>, and what the status is to be with it.\<close>

definition bothJoined :: "GameState \<Rightarrow> bool" where
  "bothJoined game = (truthy (getPlayer (players game) White) \<and> truthy (getPlayer (players game) Black))"

definition statusInv :: "GameState \<Rightarrow> bool" where
  "statusInv game = (status game = (if bothJoined game then Active else Waiting))"

definition storeInv :: "Server \<Rightarrow> bool" where
  "storeInv s = (distinct (map fst (playerConnections s))
                 \<and> (\<forall>g game. games s g = Some game \<longrightarrow> statusInv game))"

section \<open>The initial board\<close>

lemma createInitialBoard_rows:
  "createInitialBoard = map (\<lambda>r c. standardLayout c (int r)) [0..<8]"
  unfolding createInitialBoard_def emptyBoard_def
  apply (simp add: placeColumn_def setRowCell_def Let_def upt_rec numeral_eq_Suc)
  apply (intro conjI ext)
         apply (simp_all add: standardLayout_def backRank_def pieceOrder_def mkPiece_def)
  done

lemma length_createInitialBoard: "length createInitialBoard = 8"
  by (simp add: createInitialBoard_rows)

lemma createInitialBoard_nth:
  "r < 8 \<Longrightarrow> createInitialBoard ! r = (\<lambda>c. standardLayout c (int r))"
  unfolding createInitialBoard_rows
  using nth_map_upt [of r 8 0 "\<lambda>r c. standardLayout c (int r)"] by simp

lemma getRow_createInitialBoard:
  "getRow createInitialBoard r =
     (if 0 \<le> r \<and> r < 8 then Some (\<lambda>c. standardLayout c r) else None)"
proof (cases "0 \<le> r \<and> r < 8")
  case True
  then have "nat r < 8" and "int (nat r) = r" by auto
  then have "createInitialBoard ! nat r = (\<lambda>c. standardLayout c r)"
    using createInitialBoard_nth [of "nat r"] by simp
  then show ?thesis
    using True by (simp add: getRow_def length_createInitialBoard)
next
  case False
  then show ?thesis
    by (auto simp: getRow_def length_createInitialBoard)
qed

lemma readCell_createInitialBoard:
  "readCell createInitialBoard p =
     (if 0 \<le> py p \<and> py p < 8 then Some (standardLayout (px p) (py p)) else None)"
  by (simp add: readCell_def getRow_createInitialBoard)

lemma boardPieces_initial:
  "length (boardPieces createInitialBoard) = 32"
  apply (simp add: boardPieces_def createInitialBoard_rows upt_rec numeral_eq_Suc)
  apply (simp add: List.map_filter_def upto_rec1 standardLayout_def backRank_def)
  done


lemma boardPieces_colors:
  "length (filter (\<lambda>p. color p = White) (boardPieces createInitialBoard)) = 16
   \<and> length (filter (\<lambda>p. color p = Black) (boardPieces createInitialBoard)) = 16"
  apply (simp add: boardPieces_def createInitialBoard_rows upt_rec numeral_eq_Suc)
  apply (simp add: List.map_filter_def upto_rec1 standardLayout_def backRank_def)
  done

section \<open>The shuffle is a permutation\<close>

text \<open>
  The index that the code computes can differ from the floor of the exact product: for
  \<open>r = 3752999689475413 / 2^52\<close> and \<open>i = 5\<close> the exact product is \<open>5 - 2^(-51)\<close>, halfway
  between two doubles, and rounds to 5.
\<close>

lemma randomIndex_rounds_up:
  "randomIndex (3752999689475413 / 2 ^ 52) 5 = 5
   \<and> nat \<lfloor>(3752999689475413 / 2 ^ 52 :: rat) * 6\<rfloor> = 4"
  by code_simp

text \<open>
  The rounding on known products: \<open>0.1\<close> is the double nearest to a tenth,
  \<open>0.1 * 3\<close> is \<open>0.30000000000000004\<close>, \<open>0.3333333333333333 * 3\<close> is 1, and above
  \<open>2^53\<close> only every second integer is a double.
\<close>

lemma roundDouble_examples:
  "roundDouble (1 / 10) = 3602879701896397 / 2 ^ 55
   \<and> roundDouble (roundDouble (1 / 10) * 3) = 5404319552844596 / 2 ^ 54
   \<and> roundDouble (roundDouble (1 / 3) * 3) = 1
   \<and> roundDouble (2 ^ 53 + 1) = 2 ^ 53
   \<and> roundDouble (2 ^ 53 + 3) = 2 ^ 53 + 4"
  by code_simp

lemma roundTiesToEven_le: "of_int (roundTiesToEven q) \<le> q + 1 / 2"
proof -
  define f where "f = \<lfloor>q\<rfloor>"
  have "of_int f \<le> q" by (simp add: f_def)
  then have "of_int f \<le> q + 1 / 2"
    and "1 / 2 \<le> q - of_int f \<Longrightarrow> of_int (f + 1) \<le> q + 1 / 2"
    by simp_all
  then show ?thesis
    unfolding roundTiesToEven_def Let_def f_def [symmetric]
    by (auto simp del: of_int_add)
qed

lemma log2floor_le:
  assumes "0 < q"
  shows "2 powi (log2floor q) \<le> q"
proof -
  obtain a b where ab: "quotient_of q = (a, b)" by (cases "quotient_of q")
  then have b: "0 < b" and q: "q = of_int a / of_int b"
    by (simp_all add: quotient_of_denom_pos quotient_of_div)
  with assms have a: "0 < a"
    by (simp add: zero_less_divide_iff)
  let ?d = "bitlen a - bitlen b"
  show ?thesis
  proof (cases "(2::rat) powi ?d \<le> q")
    case True
    then show ?thesis by (simp add: log2floor_def ab)
  next
    case False
    have la: "1 \<le> bitlen a" and lb: "1 \<le> bitlen b"
      using a b bitlen_eq_zero_iff [of a] bitlen_eq_zero_iff [of b] bitlen_nonneg [of a] bitlen_nonneg [of b]
      by linarith+
    have "(2::int) ^ nat (bitlen a - 1) \<le> a" using bitlen_bounds [OF a] by simp
    then have "(of_int ((2::int) ^ nat (bitlen a - 1)) :: rat) \<le> of_int a" by (rule of_int_le_iff [THEN iffD2])
    then have 1: "(2::rat) powi (bitlen a - 1) \<le> of_int a"
      using la by (simp add: power_int_def)
    have "b < (2::int) ^ nat (bitlen b)" using bitlen_bounds [OF b] by simp
    then have "(of_int b :: rat) < of_int ((2::int) ^ nat (bitlen b))" by (rule of_int_less_iff [THEN iffD2])
    then have 2: "of_int b < (2::rat) powi (bitlen b)"
      using lb by (simp add: power_int_def)
    have "(2::rat) powi (?d - 1) = 2 powi (bitlen a - 1) / 2 powi (bitlen b)"
      by (simp add: power_int_diff)
    also have "\<dots> \<le> of_int a / 2 powi (bitlen b)"
      using 1 by (simp add: divide_right_mono)
    also have "\<dots> \<le> of_int a / of_int b"
      using 2 a b by (simp add: frac_le)
    finally have "(2::rat) powi (?d - 1) \<le> q" by (simp only: q)
    moreover have "log2floor q = ?d - 1"
      using False by (simp add: log2floor_def ab)
    ultimately show ?thesis by simp
  qed
qed


lemma log2floor_less:
  assumes "0 < q"
  shows "q < 2 powi (log2floor q + 1)"
proof -
  obtain a b where ab: "quotient_of q = (a, b)" by (cases "quotient_of q")
  then have b: "0 < b" and q: "q = of_int a / of_int b"
    by (simp_all add: quotient_of_denom_pos quotient_of_div)
  with assms have a: "0 < a"
    by (simp add: zero_less_divide_iff)
  let ?d = "bitlen a - bitlen b"
  show ?thesis
  proof (cases "(2::rat) powi ?d \<le> q")
    case False
    then have "log2floor q = ?d - 1" by (simp add: log2floor_def ab)
    with False show ?thesis by simp
  next
    case True
    have la: "1 \<le> bitlen a" and lb: "1 \<le> bitlen b"
      using a b bitlen_eq_zero_iff [of a] bitlen_eq_zero_iff [of b] bitlen_nonneg [of a] bitlen_nonneg [of b]
      by linarith+
    have "a < (2::int) ^ nat (bitlen a)" using bitlen_bounds [OF a] by simp
    then have "(of_int a :: rat) < of_int ((2::int) ^ nat (bitlen a))" by (rule of_int_less_iff [THEN iffD2])
    then have 1: "of_int a < (2::rat) powi (bitlen a)"
      using la by (simp add: power_int_def)
    have "(2::int) ^ nat (bitlen b - 1) \<le> b" using bitlen_bounds [OF b] by simp
    then have "(of_int ((2::int) ^ nat (bitlen b - 1)) :: rat) \<le> of_int b" by (rule of_int_le_iff [THEN iffD2])
    then have 2: "(2::rat) powi (bitlen b - 1) \<le> of_int b"
      using lb by (simp add: power_int_def)
    have "of_int a / of_int b < (2::rat) powi (bitlen a) / of_int b"
      using 1 b by (simp add: divide_strict_right_mono)
    also have "\<dots> \<le> 2 powi (bitlen a) / 2 powi (bitlen b - 1)"
      using 2 by (simp add: frac_le)
    also have "\<dots> = 2 powi (?d + 1)"
      by (simp add: power_int_diff power_int_add)
    finally have "q < 2 powi (?d + 1)" by (simp only: q)
    moreover have "log2floor q = ?d"
      using True by (simp add: log2floor_def ab)
    ultimately show ?thesis by simp
  qed
qed

text \<open>
  Every double below 1 is at most \<open>1 - 2^(-53)\<close>. For such an \<open>r\<close> the rounded product
  \<open>r * n\<close> stays below \<open>n\<close>, so the index is at most \<open>i\<close>.
\<close>

lemma roundDouble_less:
  assumes "0 \<le> r" and "r \<le> 1 - 1 / 2 ^ 53" and "1 \<le> n"
  shows "roundDouble (r * n) < n"
proof (cases "r * n = 0")
  case True
  then show ?thesis using assms by (simp add: roundDouble_def)
next
  case False
  define p where "p = r * n"
  have p: "0 < p" using False assms by (simp add: p_def less_le)
  have pn: "p \<le> n - n / 2 ^ 53"
  proof -
    have "r * n \<le> (1 - 1 / 2 ^ 53) * n"
      using assms by (intro mult_right_mono) simp_all
    then show ?thesis by (simp add: p_def algebra_simps)
  qed
  moreover have "0 < n / 2 ^ 53" using assms by simp
  ultimately have "p < n" by linarith
  define e where "e = max (log2floor p) (- 1022)"
  have en: "(2::rat) powi e < n"
  proof (cases "log2floor p \<le> - 1022")
    case True
    then have "e = - 1022" by (simp add: e_def)
    moreover have "(2::rat) powi (- 1022) < 1"
    proof -
      have "(1::rat) < 2 ^ 1022" by (rule one_less_power) simp_all
      then have "inverse ((2::rat) ^ 1022) < 1" by (simp only: inverse_less_1_iff) simp
      moreover have "(2::rat) powi (- 1022) = inverse (2 ^ 1022)"
        by (simp only: power_int_minus power_int_numeral)
      ultimately show ?thesis by (simp only:)
    qed
    ultimately show ?thesis using assms by simp
  next
    case False
    then have "e = log2floor p" by (simp add: e_def)
    with log2floor_le [OF p] \<open>p < n\<close> show ?thesis by simp
  qed
  define s where "s = (2::rat) powi (52 - e)"
  have s: "0 < s" by (simp add: s_def)
  have inv: "(2::rat) powi (e - 52) = 1 / s"
    by (simp add: s_def power_int_diff)
  have half: "1 / (2 * s) = 2 powi e / 2 ^ 53"
    by (simp add: s_def power_int_diff)
  have "of_int (roundTiesToEven (p * s)) \<le> p * s + 1 / 2"
    by (rule roundTiesToEven_le)
  then have "of_int (roundTiesToEven (p * s)) / s \<le> (p * s + 1 / 2) / s"
    using s by (simp add: divide_right_mono)
  also have "\<dots> = p + 1 / (2 * s)"
    using s by (simp add: field_simps)
  also have "\<dots> = p + 2 powi e / 2 ^ 53" by (simp only: half)
  also have "\<dots> < p + n / 2 ^ 53"
    using en by (simp add: divide_strict_right_mono)
  also have "\<dots> \<le> n" using pn by simp
  finally have "of_int (roundTiesToEven (p * s)) / s < n" .
  moreover have "roundDouble p = of_int (roundTiesToEven (p * s)) / s"
    using p by (simp add: roundDouble_def Let_def e_def [symmetric] s_def [symmetric] inv)
  ultimately show ?thesis by (simp add: p_def)
qed

lemma randomIndex_le:
  assumes "0 \<le> r" and "r \<le> 1 - 1 / 2 ^ 53"
  shows "randomIndex r i \<le> i"
proof -
  have "roundDouble (r * of_nat (i + 1)) < of_nat (i + 1)"
    using assms by (intro roundDouble_less) simp_all
  then have "\<lfloor>roundDouble (r * of_nat (i + 1))\<rfloor> < int (i + 1)"
    by (simp add: floor_less_iff del: of_nat_Suc of_nat_add)
  then show ?thesis
    by (simp add: randomIndex_def)
qed

lemma length_swap: "length (swap i j xs) = length xs"
  by (simp add: swap_def)

lemma mset_swap_list:
  "i < length xs \<Longrightarrow> j < length xs \<Longrightarrow> mset (swap i j xs) = mset xs"
  unfolding swap_def by (rule mset_swap)

lemma mset_shuffleLoop:
  assumes "\<And>k. 0 \<le> rnd k \<and> rnd k \<le> 1 - 1 / 2 ^ 53"
  shows "n < length xs \<Longrightarrow> mset (shuffleLoop rnd n xs) = mset xs"
proof (induction n arbitrary: xs)
  case 0
  then show ?case by simp
next
  case (Suc n)
  let ?j = "randomIndex (rnd (Suc n)) (Suc n)"
  have "?j \<le> Suc n"
    using assms by (simp add: randomIndex_le)
  with Suc.prems have j: "?j < length xs" by simp
  have "mset (shuffleLoop rnd n (swap (Suc n) ?j xs)) = mset (swap (Suc n) ?j xs)"
    using Suc.prems by (intro Suc.IH) (simp add: length_swap)
  then show ?case
    using Suc.prems j by (simp add: mset_swap_list)
qed

lemma mset_shuffleDeck:
  assumes "\<And>k. 0 \<le> rnd k \<and> rnd k \<le> 1 - 1 / 2 ^ 53"
  shows "mset (shuffleDeck rnd d) = mset d"
proof (cases d)
  case Nil
  then show ?thesis by (simp add: shuffleDeck_def)
next
  case (Cons a as)
  then show ?thesis
    unfolding shuffleDeck_def by (intro mset_shuffleLoop [OF assms]) simp
qed

lemma length_orderedDeck: "length orderedDeck = 52"
  by (simp add: orderedDeck_def suits_def cardValues_def)

lemma distinct_orderedDeck: "distinct (map (\<lambda>c. (suit c, cvalue c)) orderedDeck)"
  by (simp add: orderedDeck_def suits_def cardValues_def mkCard_def)

lemma createDeck_props:
  assumes "\<And>k. 0 \<le> rnd k \<and> rnd k \<le> 1 - 1 / 2 ^ 53"
  shows "length (createDeck rnd) = 52"
    and "distinct (map (\<lambda>c. (suit c, cvalue c)) (createDeck rnd))"
    and "mset (createDeck rnd) = mset orderedDeck"
proof -
  show m: "mset (createDeck rnd) = mset orderedDeck"
    unfolding createDeck_def by (rule mset_shuffleDeck [OF assms])
  then show "length (createDeck rnd) = 52"
    using mset_eq_length length_orderedDeck by metis
  have "mset (map (\<lambda>c. (suit c, cvalue c)) (createDeck rnd))
        = mset (map (\<lambda>c. (suit c, cvalue c)) orderedDeck)"
    using m by simp
  then show "distinct (map (\<lambda>c. (suit c, cvalue c)) (createDeck rnd))"
    using distinct_orderedDeck mset_eq_imp_distinct_iff by blast
qed


section \<open>The concrete run, step by step\<close>

lemma createdServer_eq:
  "createdServer = \<lparr>games = [''g'' \<mapsto> newGame ''g'' demoRnd], playerConnections = [], sent = []\<rparr>"
  by (simp add: createdServer_def createGame_def emptyServer_def)

lemma whiteJoined_eq:
  "whiteJoined = \<lparr>games = [''g'' \<mapsto> (newGame ''g'' demoRnd)\<lparr>players := [(White, ''p1'')]\<rparr>],
                  playerConnections = [], sent = []\<rparr>"
  by (simp add: whiteJoined_def createdServer_eq restJoin_def newGame_def getPlayer_def truthy_def Let_def)

lemma activeServer_eq:
  "activeServer = \<lparr>games = [''g'' \<mapsto> activeGame], playerConnections = [], sent = []\<rparr>"
  by (simp add: activeServer_def whiteJoined_eq restJoin_def newGame_def getPlayer_def truthy_def Let_def
      dealCommunity_def splice0_def activeGame_def)

lemma connectedServer_eq:
  "connectedServer =
     \<lparr>games = [''g'' \<mapsto> activeGame],
      playerConnections = [(''p1'', \<lparr>ws = 1, conn_gameId = ''g''\<rparr>), (''p2'', \<lparr>ws = 2, conn_gameId = ''g''\<rparr>)],
      sent = [(1, joinedUpdate ''p1''), (1, joinedUpdate ''p2''), (2, joinedUpdate ''p2'')]\<rparr>"
  by (simp add: connectedServer_def activeServer_eq wsMessage_def wsDispatch_def wsJoinGame_def
      broadcastGameUpdate_def recipients_def joinedUpdate_def)

section \<open>Draw and deal\<close>

lemma pop_nonempty: "xs \<noteq> [] \<Longrightarrow> pop xs = (Some (last xs), butlast xs)"
  by (cases xs) (simp_all add: pop_def)

lemma pop_empty: "pop [] = (None, [])"
  by (simp add: pop_def)

section \<open>Evaluating the concrete run\<close>

lemma activeGame_sel:
  "gid activeGame = ''g''" "players activeGame = [(White, ''p1''), (Black, ''p2'')]"
  "board activeGame = createInitialBoard" "currentTurn activeGame = White"
  "status activeGame = Active" "deck activeGame = drop 3 (createDeck demoRnd)"
  "communityCards activeGame = map reveal (take 3 (createDeck demoRnd))"
  by (simp_all add: activeGame_def)

lemma games_connectedServer: "games connectedServer ''g'' = Some activeGame"
  by (simp add: connectedServer_eq)

lemma games_activeServer: "games activeServer ''g'' = Some activeGame"
  by (simp add: activeServer_eq)

lemma randomIndex_zero: "randomIndex 0 i = 0"
  by (simp add: randomIndex_def roundDouble_def)

lemma demoRnd_range: "0 \<le> demoRnd k \<and> demoRnd k \<le> 1 - 1 / 2 ^ 53"
  by (simp add: demoRnd_def)

lemma last_demoDeck: "last (createDeck demoRnd) = mkCard Hearts (Num 2)"
  by (simp add: createDeck_def shuffleDeck_def orderedDeck_def suits_def cardValues_def
      demoRnd_def randomIndex_zero swap_def numeral_eq_Suc)

lemma length_demoDeck: "length (createDeck demoRnd) = 52"
  using createDeck_props(1) [of demoRnd] demoRnd_range by simp

lemma readCell_setRowCell:
  "r < length b \<Longrightarrow>
   readCell (setRowCell b r c v) q =
     (if py q = int r then Some (if px q = c then v else (b ! r) (px q)) else readCell b q)"
  by (auto simp: readCell_def getRow_def setRowCell_def)

lemma writeCell_Some:
  "0 \<le> py p \<Longrightarrow> py p < int (length b) \<Longrightarrow>
   writeCell b p v = Some (setRowCell b (nat (py p)) (px p) v)"
  by (simp add: writeCell_def getRow_def)

lemma writeCell_None:
  "py p < 0 \<or> int (length b) \<le> py p \<Longrightarrow> writeCell b p v = None"
  by (auto simp: writeCell_def getRow_def)

lemma length_setRowCell: "length (setRowCell b r c v) = length b"
  by (simp add: setRowCell_def)

section \<open>Moves and the turn\<close>

text \<open>
  Claim C1 (every accepted move, on either surface, flips \<open>currentTurn\<close> once), evaluated
  on the push channel: with both players joined and White to move, the request
  \<open>MOVE_REQUEST\<close> from (4, 6) to (4, 4) is accepted, the pawn is moved and the \<open>MOVE\<close>
  update goes to both connections, and \<open>currentTurn\<close> is still White. The same move
  through the REST handler makes it Black.
\<close>

theorem C1_ws_move_keeps_turn:
  "turnOf connectedServer ''g'' = Some White
   \<and> turnOf (wsMessage connectedServer 1 (MOVE_REQUEST ''g'' (mkMove (pos 4 6) (pos 4 4) ''p1''))) ''g'' = Some White
   \<and> cellOf (wsMessage connectedServer 1 (MOVE_REQUEST ''g'' (mkMove (pos 4 6) (pos 4 4) ''p1''))) ''g'' (pos 4 4)
       = Some (Some (Some (mkPiece Pawn White 4 4)))
   \<and> cellOf (wsMessage connectedServer 1 (MOVE_REQUEST ''g'' (mkMove (pos 4 6) (pos 4 4) ''p1''))) ''g'' (pos 4 6)
       = Some (Some None)
   \<and> sent (wsMessage connectedServer 1 (MOVE_REQUEST ''g'' (mkMove (pos 4 6) (pos 4 4) ''p1'')))
       = sent connectedServer @ [(1, moveUpdate (pos 4 6) (pos 4 4) (mkPiece Pawn White 4 6)),
                                 (2, moveUpdate (pos 4 6) (pos 4 4) (mkPiece Pawn White 4 6))]
   \<and> turnOf (fst (restMove connectedServer ''g'' (mkMove (pos 4 6) (pos 4 4) ''p1''))) ''g'' = Some Black"
  by (simp add: turnOf_def cellOf_def wsMessage_def wsDispatch_def wsMoveRequest_def isValidMove_def
      restMove_def playerColorOf_def otherColor_def Let_def
      connectedServer_eq activeGame_sel readCell_createInitialBoard standardLayout_def backRank_def
      writeCell_Some length_createInitialBoard length_setRowCell readCell_setRowCell
      createInitialBoard_nth
      pos_def mkMove_def mkPiece_def movedTo_def broadcastGameUpdate_def recipients_def moveUpdate_def)


lemmas run_defs =
  turnOf_def cellOf_def deckOf_def statusOf_def communityOf_def playersOf_def
  wsMessage_def wsDispatch_def wsMoveRequest_def wsCardPlayRequest_def wsJoinGame_def isValidMove_def
  restMove_def restPlayCard_def playerColorOf_def otherColor_def Let_def send_def
  activeGame_sel readCell_createInitialBoard standardLayout_def backRank_def
  writeCell_Some writeCell_None length_createInitialBoard length_setRowCell readCell_setRowCell
  createInitialBoard_nth attachCard_def
  pos_def mkMove_def mkPiece_def movedTo_def broadcastGameUpdate_def recipients_def
  moveUpdate_def cardUpdate_def joinedUpdate_def

lemma rest_move_not_your_turn:
  assumes "games s g = Some game"
      and "playerColorOf (players game) (mplayerId mv) \<noteq> Some (currentTurn game)"
  shows "restMove s g mv = (s, Inl NotYourTurn)"
  using assms by (auto simp: restMove_def split: option.splits)

lemma rest_move_flips_turn:
  assumes "games s g = Some game" and "restMove s g mv = (s1, Inr game1)"
  shows "currentTurn game1 = otherColor (currentTurn game) \<and> games s1 g = Some game1"
  using assms
  by (auto simp: restMove_def Let_def broadcastGameUpdate_def split: option.splits if_splits)

lemma ws_move_keeps_turn:
  assumes "games s g = Some game"
  shows "\<exists>game1. games (wsMessage s w (MOVE_REQUEST g mv)) g = Some game1
           \<and> currentTurn game1 = currentTurn game"
  using assms
  by (auto simp: wsMessage_def wsDispatch_def wsMoveRequest_def send_def broadcastGameUpdate_def
      split: option.splits bool.splits)

text \<open>
  Claim C2 (a move by the player whose color is not \<open>currentTurn\<close> fails with NotYourTurn
  and changes nothing), evaluated on both surfaces: White is to move and player p2 is
  Black. The REST handler rejects p2's move from (4, 1) to (4, 3) and returns the store as
  it was; the push handler carries the same move out and broadcasts it.
\<close>

theorem C2_ws_move_ignores_turn:
  "turnOf connectedServer ''g'' = Some White
   \<and> colorOf connectedServer ''g'' ''p2'' = Some (Some Black)
   \<and> restMove connectedServer ''g'' (mkMove (pos 4 1) (pos 4 3) ''p2'') = (connectedServer, Inl NotYourTurn)
   \<and> cellOf connectedServer ''g'' (pos 4 1) = Some (Some (Some (mkPiece Pawn Black 4 1)))
   \<and> cellOf (wsMessage connectedServer 2 (MOVE_REQUEST ''g'' (mkMove (pos 4 1) (pos 4 3) ''p2''))) ''g'' (pos 4 1)
       = Some (Some None)
   \<and> cellOf (wsMessage connectedServer 2 (MOVE_REQUEST ''g'' (mkMove (pos 4 1) (pos 4 3) ''p2''))) ''g'' (pos 4 3)
       = Some (Some (Some (mkPiece Pawn Black 4 3)))
   \<and> sent (wsMessage connectedServer 2 (MOVE_REQUEST ''g'' (mkMove (pos 4 1) (pos 4 3) ''p2'')))
       = sent connectedServer @ [(1, moveUpdate (pos 4 1) (pos 4 3) (mkPiece Pawn Black 4 1)),
                                 (2, moveUpdate (pos 4 1) (pos 4 3) (mkPiece Pawn Black 4 1))]"
  by (simp add: run_defs colorOf_def games_connectedServer) (simp add: connectedServer_eq)

section \<open>Joining over the push channel\<close>

text \<open>
  Claim C6 (\<open>PLAYER_JOINED\<close> goes to every connection of the session other than the
  joiner's own), evaluated: with no connection registered, player p1 sends \<open>JOIN_GAME\<close> on
  connection 1. The entry is registered first, so the broadcast that follows reaches
  connection 1 itself.
\<close>

theorem C6_joiner_receives_own_event:
  "playerConnections activeServer = []
   \<and> sent activeServer = []
   \<and> playerConnections (wsMessage activeServer 1 (JOIN_GAME ''g'' ''p1''))
       = [(''p1'', \<lparr>ws = 1, conn_gameId = ''g''\<rparr>)]
   \<and> sent (wsMessage activeServer 1 (JOIN_GAME ''g'' ''p1'')) = [(1, joinedUpdate ''p1'')]"
  by (simp add: run_defs activeServer_eq)

lemma ws_join_reaches_joiner:
  "(w, Update \<lparr>utype = PLAYER_JOINED, gameId = g, udata = PlayerData p\<rparr>)
     \<in> set (sent (wsMessage s w (JOIN_GAME g p)))"
proof -
  have "(p, \<lparr>ws = w, conn_gameId = g\<rparr>) \<in> set (setProp cs p \<lparr>ws = w, conn_gameId = g\<rparr>)" for cs
    by (induction cs) auto
  then have "w \<in> set (recipients (setProp (playerConnections s) p \<lparr>ws = w, conn_gameId = g\<rparr>) g)"
    by (force simp: recipients_def)
  then show ?thesis
    by (simp add: wsMessage_def wsDispatch_def wsJoinGame_def broadcastGameUpdate_def)
qed


lemma last_activeDeck: "last (drop 3 (createDeck demoRnd)) = mkCard Hearts (Num 2)"
  using last_demoDeck length_demoDeck by (simp add: last_drop)

lemma pop_activeDeck:
  "pop (drop 3 (createDeck demoRnd)) = (Some (mkCard Hearts (Num 2)), butlast (drop 3 (createDeck demoRnd)))"
  using last_activeDeck length_demoDeck pop_nonempty [of "drop 3 (createDeck demoRnd)"] by auto

section \<open>Playing a card\<close>

text \<open>
  Claim C4 (every play-card on a non-empty deck removes one card and broadcasts
  \<open>CARD_PLAY\<close> to every connection of the session), evaluated on the empty cell (4, 4):
  the push handler removes a card from the deck of 49 and sends nothing, the REST handler
  on the same input sends the update to both connections.
\<close>

theorem C4_ws_card_play_without_broadcast:
  "cellOf connectedServer ''g'' (pos 4 4) = Some (Some None)
   \<and> map_option length (deckOf connectedServer ''g'') = Some 49
   \<and> map_option length (deckOf (wsMessage connectedServer 1 (CARD_PLAY_REQUEST ''g'' (pos 4 4))) ''g'') = Some 48
   \<and> sent (wsMessage connectedServer 1 (CARD_PLAY_REQUEST ''g'' (pos 4 4))) = sent connectedServer
   \<and> sent (fst (restPlayCard connectedServer ''g'' ''p1'' (pos 4 4)))
       = sent connectedServer @ [(1, cardUpdate (pos 4 4) (mkCard Hearts (Num 2))),
                                 (2, cardUpdate (pos 4 4) (mkCard Hearts (Num 2)))]"
  by (simp add: run_defs games_connectedServer pop_activeDeck length_demoDeck)
     (simp add: connectedServer_eq)

lemma rest_play_card_broadcasts:
  assumes "games s g = Some game" and "deck game \<noteq> []" and "readCell (board game) q = Some cell"
  shows "\<exists>game1. restPlayCard s g p q
           = (s\<lparr>games := (games s)(g \<mapsto> game1),
                sent := sent s @ map (\<lambda>w. (w, Update \<lparr>utype = CARD_PLAY, gameId = gid game,
                                        udata = CardPlayData q (last (deck game))\<rparr>))
                                 (recipients (playerConnections s) (gid game))\<rparr>, Inr game1)
         \<and> deck game1 = butlast (deck game)"
  using assms
  by (cases cell) (simp_all add: restPlayCard_def pop_nonempty Let_def broadcastGameUpdate_def)

lemma ws_card_play_removes_one:
  assumes "games s g = Some game" and "deck game \<noteq> []"
  shows "\<exists>game1. games (wsMessage s w (CARD_PLAY_REQUEST g q)) g = Some game1
           \<and> deck game1 = butlast (deck game)"
  using assms
  by (auto simp: wsMessage_def wsDispatch_def wsCardPlayRequest_def pop_nonempty Let_def send_def
      broadcastGameUpdate_def split: option.splits)

lemma rest_play_card_empty_deck:
  assumes "games s g = Some game" and "deck game = []"
  shows "restPlayCard s g p q = (s, Inl DeckEmpty)"
  using assms by (simp add: restPlayCard_def pop_def)

lemma ws_card_play_empty_deck:
  assumes "games s g = Some game" and "deck game = []"
  shows "wsMessage s w (CARD_PLAY_REQUEST g q) = s"
  using assms by (simp add: wsMessage_def wsDispatch_def wsCardPlayRequest_def pop_def)

lemma rest_play_card_empty_cell:
  assumes "games s g = Some game" and "deck game \<noteq> []" and "readCell (board game) q = Some None"
  shows "games (fst (restPlayCard s g p q)) = (games s)(g \<mapsto> game\<lparr>deck := butlast (deck game)\<rparr>)
       \<and> playerConnections (fst (restPlayCard s g p q)) = playerConnections s"
  using assms by (simp add: restPlayCard_def pop_nonempty Let_def broadcastGameUpdate_def)

lemma butlast_take_length: "butlast (take (length xs - n) xs) = take (length xs - Suc n) xs"
  by (simp add: butlast_take)

lemma drawTimes_games:
  assumes "games s ''g'' = Some game" and "readCell (board game) (pos 4 4) = Some None"
  shows "n \<le> length (deck game) \<Longrightarrow>
         games (drawTimes n s) = (games s)(''g'' \<mapsto> game\<lparr>deck := take (length (deck game) - n) (deck game)\<rparr>)
         \<and> playerConnections (drawTimes n s) = playerConnections s"
proof (induction n)
  case 0
  then show ?case using assms by (simp add: drawTimes_def fun_upd_idem)
next
  case (Suc n)
  let ?s = "drawTimes n s"
  let ?game = "game\<lparr>deck := take (length (deck game) - n) (deck game)\<rparr>"
  have "n \<le> length (deck game)" using Suc.prems by simp
  note ih = Suc.IH [OF this]
  have gs: "games ?s = (games s)(''g'' \<mapsto> ?game)" using ih by (rule conjunct1)
  have pc: "playerConnections ?s = playerConnections s" using ih by (rule conjunct2)
  have g: "games ?s ''g'' = Some ?game" unfolding gs by simp
  have ne: "deck ?game \<noteq> []" using Suc.prems by auto
  have cell: "readCell (board ?game) (pos 4 4) = Some None" using assms by simp
  have step: "drawTimes (Suc n) s = fst (restPlayCard ?s ''g'' ''p1'' (pos 4 4))"
    by (simp add: drawTimes_def)
  show ?case
    unfolding step using rest_play_card_empty_cell [OF g ne cell, of "''p1''"] pc gs
    by (simp add: butlast_take_length)
qed

lemma games_shortServer:
  "games shortServer ''g'' = Some ((newGame ''g'' demoRnd)\<lparr>players := [(White, ''p1'')],
      deck := take 2 (createDeck demoRnd)\<rparr>)"
proof -
  let ?game = "(newGame ''g'' demoRnd)\<lparr>players := [(White, ''p1'')]\<rparr>"
  have g: "games whiteJoined ''g'' = Some ?game" by (simp add: whiteJoined_eq)
  have c: "readCell (board ?game) (pos 4 4) = Some None"
    by (simp add: newGame_def readCell_createInitialBoard standardLayout_def pos_def)
  have "50 \<le> length (deck ?game)" by (simp add: newGame_def length_demoDeck)
  from drawTimes_games [OF g c this] show ?thesis
    by (simp add: shortServer_def newGame_def length_demoDeck)
qed

lemma games_drainedServer: "games drainedServer ''g'' = Some (activeGame\<lparr>deck := []\<rparr>)"
proof -
  have c: "readCell (board activeGame) (pos 4 4) = Some None"
    by (simp add: activeGame_sel readCell_createInitialBoard standardLayout_def pos_def)
  have "49 \<le> length (deck activeGame)" by (simp add: activeGame_sel length_demoDeck)
  from drawTimes_games [OF games_connectedServer c this] show ?thesis
    by (simp add: drainedServer_def activeGame_sel length_demoDeck)
qed

text \<open>
  Claim C5 (play-card on an empty deck fails with DeckEmpty reported to the caller and
  changes nothing), evaluated after 49 draws have emptied the deck: the REST handler
  answers DeckEmpty and returns the store as it was; the push handler returns the store
  as it was too, its log of sent messages included, so that the caller is told nothing.
\<close>

theorem C5_ws_empty_deck_is_silent:
  "deckOf drainedServer ''g'' = Some []
   \<and> restPlayCard drainedServer ''g'' ''p1'' (pos 4 6) = (drainedServer, Inl DeckEmpty)
   \<and> wsMessage drainedServer 1 (CARD_PLAY_REQUEST ''g'' (pos 4 6)) = drainedServer
   \<and> sent (wsMessage drainedServer 1 (CARD_PLAY_REQUEST ''g'' (pos 4 6))) = sent drainedServer"
  using rest_play_card_empty_deck [OF games_drainedServer]
    ws_card_play_empty_deck [OF games_drainedServer]
  by (simp add: deckOf_def games_drainedServer)

section \<open>Which end of the deck is drawn and dealt\<close>

lemma demoDeck:
  "createDeck demoRnd = tl orderedDeck @ [hd orderedDeck]"
  by (simp add: createDeck_def shuffleDeck_def orderedDeck_def suits_def cardValues_def
      demoRnd_def randomIndex_zero swap_def numeral_eq_Suc)

lemma distinct_createDeck:
  assumes "\<And>k. 0 \<le> rnd k \<and> rnd k \<le> 1 - 1 / 2 ^ 53"
  shows "distinct (createDeck rnd)"
  using createDeck_props(2) [OF assms] by (simp add: distinct_map)

lemma readCell_attachCard:
  assumes "readCell b q = Some cell"
  shows "readCell (attachCard b q piece k) q = Some (Some (piece\<lparr>card := Some (k\<lparr>revealed := True\<rparr>)\<rparr>))"
proof -
  from assms have "0 \<le> py q" and "py q < int (length b)"
    by (auto simp: readCell_def getRow_def split: if_splits)
  then have "nat (py q) < length b" and "int (nat (py q)) = py q" by auto
  then show ?thesis
    by (simp add: attachCard_def readCell_setRowCell reveal_def)
qed

lemma readCell_attachCard_other:
  assumes "readCell b q = Some cell" and "q1 \<noteq> q"
  shows "readCell (attachCard b q piece k) q1 = readCell b q1"
proof -
  from assms(1) have lo: "0 \<le> py q" and hi: "py q < int (length b)"
    by (auto simp: readCell_def getRow_def split: if_splits)
  then have r: "nat (py q) < length b" and i: "int (nat (py q)) = py q" by auto
  have neq: "px q1 \<noteq> px q \<or> py q1 \<noteq> py q"
    using assms(2) by (cases q, cases q1) auto
  have "readCell (attachCard b q piece k) q1
      = (if py q1 = int (nat (py q))
         then Some (if px q1 = px q then Some (piece\<lparr>card := Some (reveal k)\<rparr>)
                    else (b ! nat (py q)) (px q1))
         else readCell b q1)"
    using r by (simp only: attachCard_def readCell_setRowCell)
  moreover have "readCell b q1 = Some ((b ! nat (py q)) (px q1))" if "py q1 = py q"
    using that lo hi by (simp add: readCell_def getRow_def)
  ultimately show ?thesis
    using i neq by auto
qed

lemma rest_play_card_occupied:
  assumes "games s g = Some game" and "deck game \<noteq> []"
      and "readCell (board game) q = Some (Some piece)"
  shows "games (fst (restPlayCard s g pl q))
           = (games s)(g \<mapsto> game\<lparr>deck := butlast (deck game),
                board := attachCard (board game) q piece (last (deck game))\<rparr>)"
  using assms by (simp add: restPlayCard_def pop_nonempty Let_def broadcastGameUpdate_def)

lemma ws_card_play_occupied:
  assumes "games s g = Some game" and "deck game \<noteq> []"
      and "readCell (board game) q = Some (Some piece)"
  shows "games (wsMessage s w (CARD_PLAY_REQUEST g q))
           = (games s)(g \<mapsto> game\<lparr>deck := butlast (deck game),
                board := attachCard (board game) q piece (last (deck game))\<rparr>)"
  using assms
  by (simp add: wsMessage_def wsDispatch_def wsCardPlayRequest_def pop_nonempty Let_def
      broadcastGameUpdate_def)

text \<open>
  Claim C3, as stated: the 3 community cards dealt on the activating join are the cards
  that the next 3 play-card draws would otherwise have yielded. In the store where White
  has joined, Black's join deals the 3, 4 and 5 of hearts, the first three cards of the
  deck. Three play-card requests on that same store instead attach the 2 of hearts, the
  ace of spades and the king of spades, the last three; the push request draws the 2 of
  hearts as well.
\<close>

theorem C3_counterexample:
  "communityOf (fst (restJoin whiteJoined ''g'' ''p2'' Black)) ''g''
     = Some [\<lparr>suit = Hearts, cvalue = Num 3, revealed = True\<rparr>,
             \<lparr>suit = Hearts, cvalue = Num 4, revealed = True\<rparr>,
             \<lparr>suit = Hearts, cvalue = Num 5, revealed = True\<rparr>]
   \<and> cellOf (threeDraws whiteJoined) ''g'' \<lparr>px = 4, py = 6\<rparr>
     = Some (Some (Some \<lparr>ptype = Pawn, color = White, position = \<lparr>px = 4, py = 6\<rparr>,
                         card = Some \<lparr>suit = Hearts, cvalue = Num 2, revealed = True\<rparr>\<rparr>))
   \<and> cellOf (threeDraws whiteJoined) ''g'' \<lparr>px = 3, py = 6\<rparr>
     = Some (Some (Some \<lparr>ptype = Pawn, color = White, position = \<lparr>px = 3, py = 6\<rparr>,
                         card = Some \<lparr>suit = Spades, cvalue = A, revealed = True\<rparr>\<rparr>))
   \<and> cellOf (threeDraws whiteJoined) ''g'' \<lparr>px = 2, py = 6\<rparr>
     = Some (Some (Some \<lparr>ptype = Pawn, color = White, position = \<lparr>px = 2, py = 6\<rparr>,
                         card = Some \<lparr>suit = Spades, cvalue = K, revealed = True\<rparr>\<rparr>))
   \<and> map_option length (deckOf (threeDraws whiteJoined) ''g'') = Some 49
   \<and> cellOf (wsMessage whiteJoined 1 (CARD_PLAY_REQUEST ''g'' \<lparr>px = 4, py = 6\<rparr>)) ''g'' \<lparr>px = 4, py = 6\<rparr>
     = Some (Some (Some \<lparr>ptype = Pawn, color = White, position = \<lparr>px = 4, py = 6\<rparr>,
                         card = Some \<lparr>suit = Hearts, cvalue = Num 2, revealed = True\<rparr>\<rparr>))"
proof -
  let ?g0 = "(newGame ''g'' demoRnd)\<lparr>players := [(White, ''p1'')]\<rparr>"
  let ?q1 = "\<lparr>px = 4, py = 6\<rparr>" and ?q2 = "\<lparr>px = 3, py = 6\<rparr>" and ?q3 = "\<lparr>px = 2, py = 6\<rparr>"
  let ?p1 = "\<lparr>ptype = Pawn, color = White, position = ?q1, card = None\<rparr>"
  let ?p2 = "\<lparr>ptype = Pawn, color = White, position = ?q2, card = None\<rparr>"
  let ?p3 = "\<lparr>ptype = Pawn, color = White, position = ?q3, card = None\<rparr>"
  let ?k1 = "\<lparr>suit = Hearts, cvalue = Num 2, revealed = False\<rparr>"
  let ?k2 = "\<lparr>suit = Spades, cvalue = A, revealed = False\<rparr>"
  let ?k3 = "\<lparr>suit = Spades, cvalue = K, revealed = False\<rparr>"
  let ?d1 = "butlast (createDeck demoRnd)" and ?d2 = "butlast (butlast (createDeck demoRnd))"
  let ?d3 = "butlast (butlast (butlast (createDeck demoRnd)))"
  let ?b1 = "attachCard createInitialBoard ?q1 ?p1 ?k1"
  let ?b2 = "attachCard ?b1 ?q2 ?p2 ?k2"
  let ?b3 = "attachCard ?b2 ?q3 ?p3 ?k3"
  let ?s1 = "fst (restPlayCard whiteJoined ''g'' ''p1'' ?q1)"
  let ?s2 = "fst (restPlayCard ?s1 ''g'' ''p1'' ?q2)"
  have g0: "games whiteJoined ''g'' = Some ?g0" by (simp add: whiteJoined_eq)
  have cells0: "readCell createInitialBoard ?q1 = Some (Some ?p1)"
    "readCell createInitialBoard ?q2 = Some (Some ?p2)"
    "readCell createInitialBoard ?q3 = Some (Some ?p3)"
    by (simp_all add: readCell_createInitialBoard standardLayout_def)
  have lasts: "last (createDeck demoRnd) = ?k1" "last ?d1 = ?k2" "last ?d2 = ?k3"
    and fronts: "take 3 (createDeck demoRnd)
      = [\<lparr>suit = Hearts, cvalue = Num 3, revealed = False\<rparr>,
         \<lparr>suit = Hearts, cvalue = Num 4, revealed = False\<rparr>,
         \<lparr>suit = Hearts, cvalue = Num 5, revealed = False\<rparr>]"
    and lens: "length ?d1 = 51" "length ?d2 = 50" "length ?d3 = 49"
    by (simp_all add: demoDeck orderedDeck_def suits_def cardValues_def mkCard_def)
  have ne: "createDeck demoRnd \<noteq> []" "?d1 \<noteq> []" "?d2 \<noteq> []"
    using length_demoDeck by (auto simp: butlast_conv_take)
  have cells1: "readCell ?b1 ?q2 = Some (Some ?p2)" "readCell ?b1 ?q3 = Some (Some ?p3)"
    using cells0 by (simp_all add: readCell_attachCard_other)
  have cells2: "readCell ?b2 ?q3 = Some (Some ?p3)"
    using cells1 by (simp add: readCell_attachCard_other)
  have s1: "games ?s1 = [''g'' \<mapsto> ?g0\<lparr>deck := ?d1, board := ?b1\<rparr>]"
    using rest_play_card_occupied [OF g0, of ?q1 ?p1 "''p1''"] cells0 ne lasts
    by (simp add: newGame_def whiteJoined_eq)
  then have g1: "games ?s1 ''g'' = Some (?g0\<lparr>deck := ?d1, board := ?b1\<rparr>)" by simp
  have s2: "games ?s2 = [''g'' \<mapsto> ?g0\<lparr>deck := ?d2, board := ?b2\<rparr>]"
    using rest_play_card_occupied [OF g1, of ?q2 ?p2 "''p1''"] cells1 ne lasts s1
    by (simp add: newGame_def)
  then have g2: "games ?s2 ''g'' = Some (?g0\<lparr>deck := ?d2, board := ?b2\<rparr>)" by simp
  have s3: "games (threeDraws whiteJoined) ''g'' = Some (?g0\<lparr>deck := ?d3, board := ?b3\<rparr>)"
    unfolding threeDraws_def
    using rest_play_card_occupied [OF g2, of ?q3 ?p3 "''p1''"] cells2 ne lasts s2
    by (simp add: newGame_def)
  have r3: "readCell ?b3 ?q3 = Some (Some (?p3\<lparr>card := Some (?k3\<lparr>revealed := True\<rparr>)\<rparr>))"
    using cells2 by (rule readCell_attachCard)
  have "readCell ?b2 ?q2 = Some (Some (?p2\<lparr>card := Some (?k2\<lparr>revealed := True\<rparr>)\<rparr>))"
    using cells1(1) by (rule readCell_attachCard)
  then have r2: "readCell ?b3 ?q2 = Some (Some (?p2\<lparr>card := Some (?k2\<lparr>revealed := True\<rparr>)\<rparr>))"
    using cells2 by (simp add: readCell_attachCard_other)
  have r1': "readCell ?b1 ?q1 = Some (Some (?p1\<lparr>card := Some (?k1\<lparr>revealed := True\<rparr>)\<rparr>))"
    using cells0(1) by (rule readCell_attachCard)
  then have "readCell ?b2 ?q1 = Some (Some (?p1\<lparr>card := Some (?k1\<lparr>revealed := True\<rparr>)\<rparr>))"
    using cells1 by (simp add: readCell_attachCard_other)
  then have r1: "readCell ?b3 ?q1 = Some (Some (?p1\<lparr>card := Some (?k1\<lparr>revealed := True\<rparr>)\<rparr>))"
    using cells2 by (simp add: readCell_attachCard_other)
  have join: "communityOf (fst (restJoin whiteJoined ''g'' ''p2'' Black)) ''g''
      = Some (map reveal (take 3 (createDeck demoRnd)))"
    by (simp add: communityOf_def whiteJoined_eq newGame_def restJoin_def getPlayer_def truthy_def
        dealCommunity_def splice0_def Let_def)
  have push: "games (wsMessage whiteJoined 1 (CARD_PLAY_REQUEST ''g'' ?q1)) ''g''
      = Some (?g0\<lparr>deck := ?d1, board := ?b1\<rparr>)"
    using ws_card_play_occupied [OF g0, of ?q1 ?p1 1] cells0 ne lasts
    by (simp add: newGame_def)
  show ?thesis
    unfolding join fronts
    using s3 push r1 r2 r3 r1' lens
    by (simp add: cellOf_def deckOf_def reveal_def)
qed

text \<open>
  Claim C3, amended: play-card, on either surface, removes the last card of the deck
  sequence and attaches it, revealed, to the piece of the target cell (the REST handler
  also broadcasts it), while the activating join removes the first 3 cards and makes them,
  revealed, the community cards. Draw and deal so work on opposite ends of the same
  sequence: in a deck without duplicates that holds at least 6 cards, the card drawn is
  none of the 3 cards dealt, and the last 3 cards, which the next 3 draws take, share
  nothing with them.
\<close>

theorem C3_draw_last_deal_first:
  assumes "games s g = Some game"
      and "distinct (deck game)" and "6 \<le> length (deck game)"
      and "readCell (board game) q = Some (Some piece)"
      and "\<not> truthy (getPlayer (players game) c)"
      and "bothJoined (game\<lparr>players := setProp (players game) c p\<rparr>)"
  shows "\<exists>s1 game1 game2 game3.
       restPlayCard s g pl q = (s1, Inr game1)
     \<and> deck game1 = butlast (deck game)
     \<and> readCell (board game1) q
         = Some (Some (piece\<lparr>card := Some ((last (deck game))\<lparr>revealed := True\<rparr>)\<rparr>))
     \<and> sent s1 = sent s @ map (\<lambda>r. (r, Update \<lparr>utype = CARD_PLAY, gameId = gid game,
                                    udata = CardPlayData q (last (deck game))\<rparr>))
                             (recipients (playerConnections s) (gid game))
     \<and> games (wsMessage s w (CARD_PLAY_REQUEST g q)) g = Some game2
     \<and> deck game2 = butlast (deck game)
     \<and> readCell (board game2) q
         = Some (Some (piece\<lparr>card := Some ((last (deck game))\<lparr>revealed := True\<rparr>)\<rparr>))
     \<and> snd (restJoin s g p c) = Inr game3
     \<and> status game3 = Active
     \<and> communityCards game3 = map (\<lambda>k. k\<lparr>revealed := True\<rparr>) (take 3 (deck game))
     \<and> deck game3 = drop 3 (deck game)
     \<and> last (deck game) \<notin> set (take 3 (deck game))
     \<and> set (take 3 (deck game)) \<inter> set (drop (length (deck game) - 3) (deck game)) = {}"
proof -
  let ?d = "deck game"
  from assms(3) have ne: "?d \<noteq> []" by auto
  have disj: "set (take 3 ?d) \<inter> set (drop (length ?d - 3) ?d) = {}"
    using assms(2,3) by (intro set_take_disj_set_drop_if_distinct) simp_all
  have "last ?d \<in> set (drop (length ?d - 3) ?d)"
    using ne assms(3) by (metis diff_less last_drop last_in_set drop_eq_Nil not_le zero_less_numeral length_greater_0_conv)
  with disj have notin: "last ?d \<notin> set (take 3 ?d)" by blast
  have att: "readCell (attachCard (board game) q piece (last ?d)) q
        = Some (Some (piece\<lparr>card := Some ((last ?d)\<lparr>revealed := True\<rparr>)\<rparr>))"
    using assms(4) by (rule readCell_attachCard)
  have rest: "restPlayCard s g pl q
      = (broadcastGameUpdate
           (s\<lparr>games := (games s)(g \<mapsto> game\<lparr>deck := butlast ?d,
                 board := attachCard (board game) q piece (last ?d)\<rparr>)\<rparr>)
           \<lparr>utype = CARD_PLAY, gameId = gid game, udata = CardPlayData q (last ?d)\<rparr>,
         Inr (game\<lparr>deck := butlast ?d, board := attachCard (board game) q piece (last ?d)\<rparr>))"
    using assms(1,4) ne by (simp add: restPlayCard_def pop_nonempty Let_def)
  have push: "games (wsMessage s w (CARD_PLAY_REQUEST g q)) g
      = Some (game\<lparr>deck := butlast ?d, board := attachCard (board game) q piece (last ?d)\<rparr>)"
    using assms(1,4) ne
    by (simp add: wsMessage_def wsDispatch_def wsCardPlayRequest_def pop_nonempty Let_def
        broadcastGameUpdate_def)
  have join: "snd (restJoin s g p c)
      = Inr (game\<lparr>players := setProp (players game) c p, status := Active,
               deck := drop 3 ?d, communityCards := map reveal (take 3 ?d)\<rparr>)"
    using assms(1,5,6)
    by (simp add: restJoin_def Let_def bothJoined_def dealCommunity_def splice0_def)
  have rev: "map reveal (take 3 ?d) = map (\<lambda>k. k\<lparr>revealed := True\<rparr>) (take 3 ?d)"
    by (simp add: reveal_def)
  show ?thesis
    unfolding rest push join
    using att disj notin rev by (simp add: broadcastGameUpdate_def)
qed

text \<open>The store of the concrete run where White has joined, and the pawn at (4, 6).\<close>

theorem C3_witness:
  "games whiteJoined ''g'' = Some ((newGame ''g'' demoRnd)\<lparr>players := [(White, ''p1'')]\<rparr>)
   \<and> distinct (createDeck demoRnd) \<and> 6 \<le> length (createDeck demoRnd)
   \<and> readCell createInitialBoard \<lparr>px = 4, py = 6\<rparr>
       = Some (Some \<lparr>ptype = Pawn, color = White, position = \<lparr>px = 4, py = 6\<rparr>, card = None\<rparr>)
   \<and> \<not> truthy (getPlayer [(White, ''p1'')] Black)
   \<and> (\<exists>game1 game3.
          snd (restPlayCard whiteJoined ''g'' ''p1'' \<lparr>px = 4, py = 6\<rparr>) = Inr game1
        \<and> length (deck game1) = 51
        \<and> readCell (board game1) \<lparr>px = 4, py = 6\<rparr>
            = Some (Some \<lparr>ptype = Pawn, color = White, position = \<lparr>px = 4, py = 6\<rparr>,
                          card = Some \<lparr>suit = Hearts, cvalue = Num 2, revealed = True\<rparr>\<rparr>)
        \<and> snd (restJoin whiteJoined ''g'' ''p2'' Black) = Inr game3
        \<and> communityCards game3
            = [\<lparr>suit = Hearts, cvalue = Num 3, revealed = True\<rparr>,
               \<lparr>suit = Hearts, cvalue = Num 4, revealed = True\<rparr>,
               \<lparr>suit = Hearts, cvalue = Num 5, revealed = True\<rparr>]
        \<and> length (deck game3) = 49)"
proof -
  let ?game = "(newGame ''g'' demoRnd)\<lparr>players := [(White, ''p1'')]\<rparr>"
  let ?pawn = "\<lparr>ptype = Pawn, color = White, position = \<lparr>px = 4, py = 6\<rparr>, card = None\<rparr>"
  have g: "games whiteJoined ''g'' = Some ?game" by (simp add: whiteJoined_eq)
  have d: "distinct (deck ?game)"
    using distinct_createDeck [of demoRnd] demoRnd_range by (simp add: newGame_def)
  have l: "6 \<le> length (deck ?game)" by (simp add: newGame_def length_demoDeck)
  have c: "readCell (board ?game) \<lparr>px = 4, py = 6\<rparr> = Some (Some ?pawn)"
    by (simp add: newGame_def readCell_createInitialBoard standardLayout_def)
  have f: "\<not> truthy (getPlayer (players ?game) Black)"
    by (simp add: getPlayer_def truthy_def)
  have b: "bothJoined (?game\<lparr>players := setProp (players ?game) Black ''p2''\<rparr>)"
    by (simp add: bothJoined_def getPlayer_def truthy_def)
  have lastd: "last (deck ?game) = \<lparr>suit = Hearts, cvalue = Num 2, revealed = False\<rparr>"
    by (simp add: newGame_def last_demoDeck mkCard_def)
  have front: "take 3 (deck ?game)
      = [\<lparr>suit = Hearts, cvalue = Num 3, revealed = False\<rparr>,
         \<lparr>suit = Hearts, cvalue = Num 4, revealed = False\<rparr>,
         \<lparr>suit = Hearts, cvalue = Num 5, revealed = False\<rparr>]"
    by (simp add: newGame_def demoDeck orderedDeck_def suits_def cardValues_def mkCard_def)
  from C3_draw_last_deal_first [OF g d l c f b, of "''p1''" 1]
  show ?thesis
    using g d l c f lastd front by (auto simp: newGame_def length_demoDeck)
qed

section \<open>Coordinates outside the board\<close>

text \<open>
  Claim C10: coordinates outside 0..7 reach the board unguarded. In the active game, with
  White (p1) to move: a REST move of the pawn at (4, 6) to row 8 ends in a TypeError and
  not in a validation error, and so does a move from row -1; a move to column 8 is
  accepted and puts the pawn outside the 8 by 8 grid; a REST play-card on row 8 ends in a
  TypeError after the card has left the deck. \<open>isValidMove\<close> rejects a destination in
  row 8 but throws on a source in row 8, which the push handler reports as a message of
  invalid format.
\<close>

theorem C10_out_of_range_reaches_board:
  "snd (restMove activeServer ''g'' (mkMove (pos 4 6) (pos 4 8) ''p1'')) = Inl TypeError
   \<and> snd (restMove activeServer ''g'' (mkMove (pos 4 (- 1)) (pos 4 4) ''p1'')) = Inl TypeError
   \<and> cellOf (fst (restMove activeServer ''g'' (mkMove (pos 4 6) (pos 8 4) ''p1''))) ''g'' (pos 8 4)
       = Some (Some (Some (mkPiece Pawn White 8 4)))
   \<and> snd (restPlayCard activeServer ''g'' ''p1'' (pos 0 8)) = Inl TypeError
   \<and> map_option length (deckOf (fst (restPlayCard activeServer ''g'' ''p1'' (pos 0 8))) ''g'') = Some 48
   \<and> isValidMove activeGame (mkMove (pos 4 6) (pos 4 8) ''p1'') = Some False
   \<and> isValidMove activeGame (mkMove (pos 4 8) (pos 4 4) ''p1'') = None
   \<and> sent (wsMessage activeServer 1 (MOVE_REQUEST ''g'' (mkMove (pos 4 8) (pos 4 4) ''p1'')))
       = [(1, ErrorMsg ''Invalid message format'')]"
  by (simp add: run_defs games_activeServer pop_activeDeck length_demoDeck)
     (simp add: activeServer_eq)

section \<open>Invariants of every reachable store\<close>

lemma keys_setProp: "fst ` set (setProp kvs k v) = insert k (fst ` set kvs)"
proof (induction kvs)
  case Nil
  then show ?case by simp
next
  case (Cons a kvs)
  obtain k1 v1 where a: "a = (k1, v1)" by (cases a)
  show ?case
  proof (cases "k1 = k")
    case True
    then show ?thesis by (simp add: a)
  next
    case False
    then show ?thesis using Cons.IH by (simp add: a insert_commute)
  qed
qed

lemma keys_deleteKey: "fst ` set (deleteKey kvs k) \<subseteq> fst ` set kvs"
proof (induction kvs)
  case Nil
  then show ?case by simp
next
  case (Cons a kvs)
  obtain k1 v1 where a: "a = (k1, v1)" by (cases a)
  show ?case
  proof (cases "k1 = k")
    case True
    then show ?thesis by (simp add: a subset_insertI)
  next
    case False
    then show ?thesis using Cons.IH by (simp add: a subset_insertI2)
  qed
qed

lemma distinct_keys_setProp:
  "distinct (map fst kvs) \<Longrightarrow> distinct (map fst (setProp kvs k v))"
proof (induction kvs)
  case Nil
  then show ?case by simp
next
  case (Cons a kvs)
  obtain k1 v1 where a: "a = (k1, v1)" by (cases a)
  show ?case
  proof (cases "k1 = k")
    case True
    then show ?thesis using Cons.prems by (simp add: a)
  next
    case False
    then show ?thesis using Cons by (simp add: a keys_setProp)
  qed
qed

lemma distinct_keys_deleteKey:
  "distinct (map fst kvs) \<Longrightarrow> distinct (map fst (deleteKey kvs k))"
proof (induction kvs)
  case Nil
  then show ?case by simp
next
  case (Cons a kvs)
  obtain k1 v1 where a: "a = (k1, v1)" by (cases a)
  show ?case
  proof (cases "k1 = k")
    case True
    then show ?thesis using Cons.prems by (simp add: a)
  next
    case False
    then show ?thesis using Cons keys_deleteKey [of kvs k] by (auto simp: a)
  qed
qed

lemma getPlayer_setProp:
  "getPlayer (setProp ps c p) c1 = (if c1 = c then Some p else getPlayer ps c1)"
  by (induction ps) (auto simp: getPlayer_def)

lemma statusInv_cong:
  "players game1 = players game \<Longrightarrow> status game1 = status game \<Longrightarrow> statusInv game \<Longrightarrow> statusInv game1"
  by (simp add: statusInv_def bothJoined_def)

lemma restJoin_inv: "storeInv s \<Longrightarrow> storeInv (fst (restJoin s g p c))"
  unfolding storeInv_def
  apply (cases "games s g")
   apply (simp add: restJoin_def)
  apply (cases c)
   apply (auto simp: restJoin_def Let_def dealCommunity_def splice0_def statusInv_def bothJoined_def
      getPlayer_setProp split: if_splits)
  done

lemma restMove_keeps:
  assumes "games (fst (restMove s g mv)) g1 = Some game1"
  shows "\<exists>game. games s g1 = Some game \<and> players game1 = players game \<and> status game1 = status game"
  using assms
  by (auto simp: restMove_def Let_def broadcastGameUpdate_def split: option.splits if_splits)

lemma restPlayCard_keeps:
  assumes "games (fst (restPlayCard s g p q)) g1 = Some game1"
  shows "\<exists>game. games s g1 = Some game \<and> players game1 = players game \<and> status game1 = status game"
  using assms
  by (auto simp: restPlayCard_def Let_def broadcastGameUpdate_def split: option.splits if_splits prod.splits)

lemma wsMessage_keeps:
  assumes "games (wsMessage s w m) g1 = Some game1"
  shows "\<exists>game. games s g1 = Some game \<and> players game1 = players game \<and> status game1 = status game"
  using assms
  by (cases m)
     (auto simp: wsMessage_def wsDispatch_def wsJoinGame_def wsMoveRequest_def wsCardPlayRequest_def
        send_def Let_def broadcastGameUpdate_def split: option.splits if_splits prod.splits bool.splits)

lemma playerConnections_rest:
  "playerConnections (fst (restMove s g mv)) = playerConnections s"
  "playerConnections (fst (restPlayCard s g p q)) = playerConnections s"
  "playerConnections (fst (restJoin s g p c)) = playerConnections s"
  "playerConnections (fst (createGame s g rnd)) = playerConnections s"
  by (auto simp: restMove_def restPlayCard_def restJoin_def createGame_def Let_def broadcastGameUpdate_def
      split: option.splits if_splits prod.splits)

lemma playerConnections_wsMessage:
  "playerConnections (wsMessage s w m)
     = (case m of JOIN_GAME g p \<Rightarrow> setProp (playerConnections s) p \<lparr>ws = w, conn_gameId = g\<rparr>
        | _ \<Rightarrow> playerConnections s)"
  by (cases m)
     (auto simp: wsMessage_def wsDispatch_def wsJoinGame_def wsMoveRequest_def wsCardPlayRequest_def
        send_def Let_def broadcastGameUpdate_def split: option.splits if_splits prod.splits bool.splits)


lemma reachable_storeInv: "reachable s \<Longrightarrow> storeInv s"
proof (induction rule: reachable.induct)
  case start
  show ?case by (simp add: storeInv_def emptyServer_def)
next
  case (create s g rnd)
  then show ?case
    by (auto simp: storeInv_def createGame_def newGame_def statusInv_def bothJoined_def
        getPlayer_def truthy_def)
next
  case (join s g p c)
  then show ?case by (simp add: restJoin_inv)
next
  case (move s g mv)
  then show ?case
    unfolding storeInv_def playerConnections_rest
    using restMove_keeps statusInv_cong by blast
next
  case (playCard s g p q)
  then show ?case
    unfolding storeInv_def playerConnections_rest
    using restPlayCard_keeps statusInv_cong by blast
next
  case (message s w m)
  have "distinct (map fst (playerConnections (wsMessage s w m)))"
    using message.IH
    by (cases m) (simp_all add: storeInv_def playerConnections_wsMessage distinct_keys_setProp)
  moreover have "statusInv game1" if "games (wsMessage s w m) g1 = Some game1" for g1 game1
    using wsMessage_keeps [OF that] message.IH statusInv_cong unfolding storeInv_def by blast
  ultimately show ?case by (simp add: storeInv_def)
next
  case (close s w)
  then show ?case
    by (auto simp: storeInv_def wsClose_def broadcastGameUpdate_def distinct_keys_deleteKey
        split: option.splits)
qed

lemma reachable_whiteJoined: "reachable whiteJoined"
  unfolding whiteJoined_def createdServer_def
  by (intro reachable.join reachable.create reachable.start)

lemma reachable_connectedServer: "reachable connectedServer"
  unfolding connectedServer_def activeServer_def whiteJoined_def createdServer_def
  by (intro reachable.message reachable.join reachable.create reachable.start)

section \<open>Joining over REST\<close>

lemma list_all_reveal: "list_all revealed (map reveal xs)"
  by (simp add: list_all_iff reveal_def)

text \<open>
  Claim C7, as stated: the join that assigns the second color moves exactly 3 cards to the
  community cards. After White has joined and 50 cards have been drawn, the deck holds 2
  cards; Black's join activates the game and deals those 2.
\<close>

theorem C7_counterexample:
  "map_option length (deckOf shortServer ''g'') = Some 2
   \<and> playersOf (fst (restJoin shortServer ''g'' ''p2'' Black)) ''g'' = Some [(White, ''p1''), (Black, ''p2'')]
   \<and> statusOf (fst (restJoin shortServer ''g'' ''p2'' Black)) ''g'' = Some Active
   \<and> map_option length (communityOf (fst (restJoin shortServer ''g'' ''p2'' Black)) ''g'') = Some 2
   \<and> map_option length (deckOf (fst (restJoin shortServer ''g'' ''p2'' Black)) ''g'') = Some 0"
  by (simp add: deckOf_def playersOf_def statusOf_def communityOf_def games_shortServer restJoin_def
      getPlayer_def truthy_def Let_def dealCommunity_def splice0_def length_demoDeck)

text \<open>
  Claim C7, amended: a join on a free color stores the player. When both colors are then
  taken, the status becomes active and the first \<open>min 3 (length deck)\<close> cards leave the
  deck and become the community cards, each revealed: exactly 3 whenever the deck holds at
  least 3. Otherwise no card is dealt and the status stays waiting.
\<close>

theorem C7_join_deals_first_three:
  assumes "reachable s" and "games s g = Some game" and "\<not> truthy (getPlayer (players game) c)"
  shows "\<exists>game1. restJoin s g p c = (s\<lparr>games := (games s)(g \<mapsto> game1)\<rparr>, Inr game1)
     \<and> players game1 = setProp (players game) c p
     \<and> (if truthy (getPlayer (players game1) White) \<and> truthy (getPlayer (players game1) Black)
        then status game1 = Active
           \<and> communityCards game1 = map reveal (take 3 (deck game))
           \<and> deck game1 = drop 3 (deck game)
           \<and> length (communityCards game1) = min 3 (length (deck game))
           \<and> length (deck game1) + min 3 (length (deck game)) = length (deck game)
           \<and> list_all revealed (communityCards game1)
        else status game1 = Waiting
           \<and> communityCards game1 = communityCards game
           \<and> deck game1 = deck game)"
proof -
  from reachable_storeInv [OF assms(1)] assms(2) have "statusInv game"
    by (simp add: storeInv_def)
  moreover have "\<not> bothJoined game"
    using assms(3) by (cases c) (auto simp: bothJoined_def)
  ultimately have "status game = Waiting"
    by (simp add: statusInv_def)
  then show ?thesis
    using assms(2,3)
    by (auto simp: restJoin_def Let_def dealCommunity_def splice0_def list_all_reveal)
qed

text \<open>The join of the second player in the concrete run.\<close>

theorem C7_witness:
  "reachable whiteJoined
   \<and> games whiteJoined ''g'' = Some ((newGame ''g'' demoRnd)\<lparr>players := [(White, ''p1'')]\<rparr>)
   \<and> \<not> truthy (getPlayer [(White, ''p1'')] Black)
   \<and> (\<exists>game1. snd (restJoin whiteJoined ''g'' ''p2'' Black) = Inr game1
         \<and> players game1 = [(White, ''p1''), (Black, ''p2'')]
         \<and> status game1 = Active
         \<and> length (communityCards game1) = 3
         \<and> length (deck game1) = 49
         \<and> list_all revealed (communityCards game1))"
  using C7_join_deals_first_three [of whiteJoined "''g''"
      "(newGame ''g'' demoRnd)\<lparr>players := [(White, ''p1'')]\<rparr>" Black "''p2''"]
    reachable_whiteJoined
  by (auto simp: whiteJoined_eq getPlayer_def truthy_def newGame_def length_demoDeck)

section \<open>Creating a game\<close>

text \<open>
  Claim C8: for every random source whose values are doubles in \<open>[0, 1)\<close>, that is
  rationals from 0 to \<open>1 - 2^(-53)\<close>, the created game is stored under its id; its board
  is the standard layout cell by cell (rows 0 and 7 read rook, knight, bishop, queen, king,
  bishop, knight, rook, and every piece's \<open>position\<close> is the cell that holds it), with 32
  pieces, 16 of each color; its deck has 52 cards with no (suit, value) pair twice; it has
  no community cards, waits and gives White the turn.
\<close>

theorem C8_created_session:
  assumes "\<And>k. 0 \<le> rnd k \<and> rnd k \<le> 1 - 1 / 2 ^ 53"
  shows "\<exists>s1 game. createGame s g rnd = (s1, g, game) \<and> games s1 g = Some game
     \<and> gid game = g \<and> players game = [] \<and> length (board game) = 8
     \<and> (\<forall>p. readCell (board game) p
             = (if 0 \<le> py p \<and> py p < 8 then Some (standardLayout (px p) (py p)) else None))
     \<and> map (\<lambda>c. map_option (map_option ptype) (readCell (board game) \<lparr>px = c, py = 0\<rparr>)) [0..7]
         = map (\<lambda>t. Some (Some t)) [Rook, Knight, Bishop, Queen, King, Bishop, Knight, Rook]
     \<and> map (\<lambda>c. map_option (map_option ptype) (readCell (board game) \<lparr>px = c, py = 7\<rparr>)) [0..7]
         = map (\<lambda>t. Some (Some t)) [Rook, Knight, Bishop, Queen, King, Bishop, Knight, Rook]
     \<and> (\<forall>p piece. readCell (board game) p = Some (Some piece) \<longrightarrow> position piece = p)
     \<and> length (boardPieces (board game)) = 32
     \<and> length (filter (\<lambda>piece. color piece = White) (boardPieces (board game))) = 16
     \<and> length (filter (\<lambda>piece. color piece = Black) (boardPieces (board game))) = 16
     \<and> length (deck game) = 52
     \<and> distinct (map (\<lambda>c. (suit c, cvalue c)) (deck game))
     \<and> communityCards game = [] \<and> status game = Waiting \<and> currentTurn game = White"
proof -
  have pos: "position piece = p" if "readCell createInitialBoard p = Some (Some piece)" for p piece
    using that
    by (auto simp: readCell_createInitialBoard standardLayout_def split: if_splits)
  have ranks:
    "map (\<lambda>c. map_option (map_option ptype) (readCell createInitialBoard \<lparr>px = c, py = 0\<rparr>)) [0..7]
       = map (\<lambda>t. Some (Some t)) [Rook, Knight, Bishop, Queen, King, Bishop, Knight, Rook]"
    "map (\<lambda>c. map_option (map_option ptype) (readCell createInitialBoard \<lparr>px = c, py = 7\<rparr>)) [0..7]
       = map (\<lambda>t. Some (Some t)) [Rook, Knight, Bishop, Queen, King, Bishop, Knight, Rook]"
    by (simp_all add: readCell_createInitialBoard standardLayout_def backRank_def upto_rec1)
  show ?thesis
    using createDeck_props [of rnd, OF assms] pos ranks boardPieces_initial boardPieces_colors
    by (simp add: createGame_def newGame_def readCell_createInitialBoard length_createInitialBoard)
qed

text \<open>The game created in the concrete run.\<close>

theorem C8_witness:
  "(\<forall>k. 0 \<le> demoRnd k \<and> demoRnd k \<le> 1 - 1 / 2 ^ 53)
   \<and> map_option length (deckOf createdServer ''g'') = Some 52
   \<and> statusOf createdServer ''g'' = Some Waiting
   \<and> turnOf createdServer ''g'' = Some White
   \<and> communityOf createdServer ''g'' = Some []
   \<and> cellOf createdServer ''g'' \<lparr>px = 4, py = 6\<rparr>
       = Some (Some (Some \<lparr>ptype = Pawn, color = White, position = \<lparr>px = 4, py = 6\<rparr>, card = None\<rparr>))
   \<and> cellOf createdServer ''g'' \<lparr>px = 3, py = 0\<rparr>
       = Some (Some (Some \<lparr>ptype = Queen, color = Black, position = \<lparr>px = 3, py = 0\<rparr>, card = None\<rparr>))
   \<and> cellOf createdServer ''g'' \<lparr>px = 4, py = 7\<rparr>
       = Some (Some (Some \<lparr>ptype = King, color = White, position = \<lparr>px = 4, py = 7\<rparr>, card = None\<rparr>))
   \<and> cellOf createdServer ''g'' \<lparr>px = 4, py = 4\<rparr> = Some (Some None)"
  using C8_created_session [of demoRnd emptyServer "''g''", OF demoRnd_range] demoRnd_range
  by (auto simp: createdServer_def deckOf_def statusOf_def turnOf_def communityOf_def
      cellOf_def standardLayout_def backRank_def)

section \<open>Disconnecting\<close>

lemma deleteKey_split:
  "k \<notin> fst ` set pre \<Longrightarrow> deleteKey (pre @ (k, v) # post) k = pre @ post"
  by (induction pre) auto

lemma find_split:
  "find P xs = Some x \<Longrightarrow> \<exists>pre post. xs = pre @ x # post \<and> list_all (\<lambda>e. \<not> P e) pre"
proof (induction xs)
  case Nil
  then show ?case by simp
next
  case (Cons a xs)
  show ?case
  proof (cases "P a")
    case True
    with Cons.prems have "a = x" by simp
    then have "a # xs = [] @ x # xs \<and> list_all (\<lambda>e. \<not> P e) []" by simp
    then show ?thesis by blast
  next
    case False
    with Cons obtain pre post where "xs = pre @ x # post" "list_all (\<lambda>e. \<not> P e) pre" by auto
    with False have "a # xs = (a # pre) @ x # post \<and> list_all (\<lambda>e. \<not> P e) (a # pre)" by simp
    then show ?thesis by blast
  qed
qed

text \<open>
  Claim C9: in every reachable store, when the closed socket belongs to a registered entry
  (the first one found), exactly that entry leaves the registry; one \<open>PLAYER_DISCONNECTED\<close> update naming its player is sent, to the remaining
  entries of that entry's game and to no other; the games are untouched.
\<close>

theorem C9_disconnect_removes_one_entry:
  assumes "reachable s"
      and "find (\<lambda>e. ws (snd e) = w) (playerConnections s) = Some (p, c)"
  shows "\<exists>pre post.
           playerConnections s = pre @ (p, c) # post
         \<and> playerConnections (wsClose s w) = pre @ post
         \<and> sent (wsClose s w)
             = sent s @ map (\<lambda>e. (ws (snd e),
                                  Update \<lparr>utype = PLAYER_DISCONNECTED, gameId = conn_gameId c,
                                          udata = PlayerData p\<rparr>))
                          (filter (\<lambda>e. conn_gameId (snd e) = conn_gameId c) (pre @ post))
         \<and> games (wsClose s w) = games s"
proof -
  from find_split [OF assms(2)] obtain pre post
    where split: "playerConnections s = pre @ (p, c) # post" by blast
  from reachable_storeInv [OF assms(1)] have "distinct (map fst (playerConnections s))"
    by (simp add: storeInv_def)
  with split have "p \<notin> fst ` set pre" by auto
  then have del: "deleteKey (playerConnections s) p = pre @ post"
    unfolding split by (rule deleteKey_split)
  have "playerConnections (wsClose s w) = pre @ post
      \<and> sent (wsClose s w)
          = sent s @ map (\<lambda>e. (ws (snd e),
                               Update \<lparr>utype = PLAYER_DISCONNECTED, gameId = conn_gameId c,
                                       udata = PlayerData p\<rparr>))
                       (filter (\<lambda>e. conn_gameId (snd e) = conn_gameId c) (pre @ post))
      \<and> games (wsClose s w) = games s"
    using assms(2) del
    by (simp add: wsClose_def broadcastGameUpdate_def recipients_def comp_def)
  with split show ?thesis by blast
qed

text \<open>Player p1 of the concrete run disconnects.\<close>

theorem C9_witness:
  "reachable connectedServer
   \<and> find (\<lambda>e. ws (snd e) = 1) (playerConnections connectedServer)
       = Some (''p1'', \<lparr>ws = 1, conn_gameId = ''g''\<rparr>)
   \<and> playerConnections (wsClose connectedServer 1) = [(''p2'', \<lparr>ws = 2, conn_gameId = ''g''\<rparr>)]
   \<and> sent (wsClose connectedServer 1)
       = sent connectedServer
         @ [(2, Update \<lparr>utype = PLAYER_DISCONNECTED, gameId = ''g'', udata = PlayerData ''p1''\<rparr>)]"
proof -
  note d = reachable_connectedServer
  have f: "find (\<lambda>e. ws (snd e) = 1) (playerConnections connectedServer)
             = Some (''p1'', \<lparr>ws = 1, conn_gameId = ''g''\<rparr>)"
    by (simp add: connectedServer_eq)
  from C9_disconnect_removes_one_entry [OF d f] obtain pre post where
    sp: "playerConnections connectedServer = pre @ (''p1'', \<lparr>ws = 1, conn_gameId = ''g''\<rparr>) # post"
    and pc: "playerConnections (wsClose connectedServer 1) = pre @ post"
    and se: "sent (wsClose connectedServer 1)
             = sent connectedServer @ map (\<lambda>e. (ws (snd e),
                                  Update \<lparr>utype = PLAYER_DISCONNECTED, gameId = ''g'',
                                          udata = PlayerData ''p1''\<rparr>))
                          (filter (\<lambda>e. conn_gameId (snd e) = ''g'') (pre @ post))"
    by auto
  from sp have "pre = [] \<and> post = [(''p2'', \<lparr>ws = 2, conn_gameId = ''g''\<rparr>)]"
    by (cases pre) (auto simp: connectedServer_eq Cons_eq_append_conv)
  with pc se d f show ?thesis by simp
qed

end
